theory Spec2Isabelle
  imports Main "HOL-Library.Word"
begin

unbundle bit_operations_syntax

section \<open>Formatted output\<close>

text \<open>
  The DEF writer of \<^verbatim>\<open>odb/src/defout/defout_impl.cpp\<close> produces its document through
  successive \<^verbatim>\<open>fprintf(_out, ...)\<close> calls. The output stream is modelled as the list of
  the chunks written, one chunk per call, in call order; \<^verbatim>\<open>%d\<close> and \<^verbatim>\<open>%u\<close> are rendered in
  decimal by \<open>show_int\<close> and \<open>show_nat\<close>.
\<close>

type_synonym out = "string list"

definition digit_char :: "nat \<Rightarrow> char" where
  "digit_char n = ''0123456789'' ! n"

fun show_nat :: "nat \<Rightarrow> string" where
  "show_nat n = (if n < 10 then [digit_char n] else show_nat (n div 10) @ [digit_char (n mod 10)])"

declare show_nat.simps [simp del]

definition show_int :: "int \<Rightarrow> string" where
  "show_int i = (if i < 0 then CHR ''-'' # show_nat (nat (- i)) else show_nat (nat i))"

text \<open>A coordinate pair as \<^verbatim>\<open>( %d %d )\<close>.\<close>

definition paren_xy :: "int \<Rightarrow> int \<Rightarrow> string" where
  "paren_xy x y = ''( '' @ show_int x @ '' '' @ show_int y @ '' )''"

type_synonym int32 = "32 word"
type_synonym uint32 = "32 word"

section \<open>Format versions (defout.h)\<close>

text \<open>
  \<^verbatim>\<open>enum Version { DEF_5_8, DEF_5_7, DEF_5_6, DEF_5_5, DEF_5_4, DEF_5_3 }\<close>: an unscoped
  C++ enumeration, whose enumerators take the values 0, 1, 2, ... in declaration order.
  The writer compares versions with the built-in \<^verbatim>\<open><\<close>, \<^verbatim>\<open>>=\<close>, ... on those values.
\<close>

datatype Version = DEF_5_8 | DEF_5_7 | DEF_5_6 | DEF_5_5 | DEF_5_4 | DEF_5_3

fun Version_value :: "Version \<Rightarrow> nat" where
  "Version_value DEF_5_8 = 0"
| "Version_value DEF_5_7 = 1"
| "Version_value DEF_5_6 = 2"
| "Version_value DEF_5_5 = 3"
| "Version_value DEF_5_4 = 4"
| "Version_value DEF_5_3 = 5"

definition ver_lt :: "Version \<Rightarrow> Version \<Rightarrow> bool" where
  "ver_lt a b = (Version_value a < Version_value b)"

definition ver_le :: "Version \<Rightarrow> Version \<Rightarrow> bool" where
  "ver_le a b = (Version_value a \<le> Version_value b)"

definition ver_gt :: "Version \<Rightarrow> Version \<Rightarrow> bool" where
  "ver_gt a b = (Version_value a > Version_value b)"

definition ver_ge :: "Version \<Rightarrow> Version \<Rightarrow> bool" where
  "ver_ge a b = (Version_value a \<ge> Version_value b)"

text \<open>
  The DEF language version a \<open>Version\<close> stands for, as (major, minor): it is the number
  that \<^verbatim>\<open>writeBlock\<close> prints in the \<^verbatim>\<open>VERSION\<close> statement for it.
\<close>

fun def_number :: "Version \<Rightarrow> nat \<times> nat" where
  "def_number DEF_5_3 = (5, 3)"
| "def_number DEF_5_4 = (5, 4)"
| "def_number DEF_5_5 = (5, 5)"
| "def_number DEF_5_6 = (5, 6)"
| "def_number DEF_5_7 = (5, 7)"
| "def_number DEF_5_8 = (5, 8)"

section \<open>Writer configuration\<close>

text \<open>
  The fields of \<^verbatim>\<open>defout_impl\<close> that a pass reads. \<open>defdist\<close> is the unit conversion
  \<^verbatim>\<open>defdist(int)\<close> / \<^verbatim>\<open>defdist(uint)\<close>, declared in \<^verbatim>\<open>defout_impl.h\<close> (floating point, outside
  the sources at hand): it is a parameter, applied to the mathematical value of its argument.
  \<open>wire_type_str\<close> is \<^verbatim>\<open>dbWireType::getString\<close>, likewise a parameter.
\<close>

datatype dbWireType = WT_NONE | WT_COVER | WT_FIXED | WT_ROUTED | WT_SHIELD | WT_NOSHIELD

record defout_impl =
  version :: Version
  use_alias :: bool
  use_net_inst_ids :: bool
  use_master_ids :: bool
  defdist :: "int \<Rightarrow> int"
  wire_type_str :: "dbWireType \<Rightarrow> string"

text \<open>
  The return type of \<^verbatim>\<open>defdist\<close> is \<^verbatim>\<open>int\<close>. The special-net writer calls it on unsigned
  widths and on 32-bit coordinates, so there the conversion of the scaled value to a 32-bit
  \<^verbatim>\<open>int\<close> is written out: the value is reduced modulo 2^32 and read as two's complement,
  which is what \<^verbatim>\<open>%d\<close> then prints.
\<close>

definition defdist_int :: "defout_impl \<Rightarrow> int \<Rightarrow> int" where
  "defdist_int w v = sint (word_of_int (defdist w v) :: 32 word)"

record dbTechLayer =
  layer_name :: string
  layer_alias :: "string option"

text \<open>\<^verbatim>\<open>if (_use_alias && l->hasAlias()) ln = l->getAlias(); else ln = l->getName();\<close>\<close>

definition layer_out_name :: "defout_impl \<Rightarrow> dbTechLayer \<Rightarrow> string" where
  "layer_out_name w l =
     (case layer_alias l of
        Some a \<Rightarrow> if use_alias w then a else layer_name l
      | None \<Rightarrow> layer_name l)"

section \<open>Special-net rectangles: writeSpecialPath\<close>

datatype Direction = UNDEFINED | HORIZONTAL | VERTICAL | OCTILINEAR

text \<open>
  \<^verbatim>\<open>dbWireShapeType\<close>: only \<^verbatim>\<open>NONE\<close> is distinguished by the writer; any other value is
  printed through \<^verbatim>\<open>getString()\<close>, whose result the constructor carries.
\<close>

datatype dbWireShapeType = SHAPE_NONE | SHAPE_OTHER string

record Oct =
  oct_center_low :: "int32 \<times> int32"
  oct_center_high :: "int32 \<times> int32"
  oct_width :: uint32

record dbSBox =
  sb_layer :: dbTechLayer
  sb_xMin :: int32
  sb_yMin :: int32
  sb_xMax :: int32
  sb_yMax :: int32
  sb_direction :: Direction
  sb_oct :: Oct
  sb_layer_mask :: uint32
  sb_shape_type :: dbWireShapeType

text \<open>
  A fatal \<^verbatim>\<open>ZException\<close>, or an \<^verbatim>\<open>assert\<close> that fails (builds without \<^verbatim>\<open>NDEBUG\<close> abort there).
\<close>

datatype fatal = ZException string | AssertionFailed

record centerline =
  cl_w :: uint32
  cl_x1 :: int32
  cl_y1 :: int32
  cl_x2 :: int32
  cl_y2 :: int32

text \<open>
  \<^verbatim>\<open>w = dy; uint dw = dy >> 1; y1 += dw; y2 -= dw; assert(y1 == y2);\<close>
  All arithmetic is 32-bit and wraps.
\<close>

definition collapse_y :: "int32 \<Rightarrow> int32 \<Rightarrow> int32 \<Rightarrow> int32 \<Rightarrow> uint32 \<Rightarrow> fatal + centerline" where
  "collapse_y x1 y1 x2 y2 dy =
     (let dw = drop_bit 1 dy; y1' = y1 + dw; y2' = y2 - dw
      in if y1' = y2'
         then Inr \<lparr>cl_w = dy, cl_x1 = x1, cl_y1 = y1', cl_x2 = x2, cl_y2 = y2'\<rparr>
         else Inl AssertionFailed)"

text \<open>\<^verbatim>\<open>w = dx; uint dw = dx >> 1; x1 += dw; x2 -= dw; assert(x1 == x2);\<close>\<close>

definition collapse_x :: "int32 \<Rightarrow> int32 \<Rightarrow> int32 \<Rightarrow> int32 \<Rightarrow> uint32 \<Rightarrow> fatal + centerline" where
  "collapse_x x1 y1 x2 y2 dx =
     (let dw = drop_bit 1 dx; x1' = x1 + dw; x2' = x2 - dw
      in if x1' = x2'
         then Inr \<lparr>cl_w = dx, cl_x1 = x1', cl_y1 = y1, cl_x2 = x2', cl_y2 = y2\<rparr>
         else Inl AssertionFailed)"

text \<open>
  The \<^verbatim>\<open>switch (box->getDirection())\<close> of \<^verbatim>\<open>writeSpecialPath\<close>. \<open>dx\<close> and \<open>dy\<close> are
  \<^verbatim>\<open>uint\<close>, so \<^verbatim>\<open>dy < dx\<close> is the unsigned comparison. The \<^verbatim>\<open>default:\<close> branch
  (\<^verbatim>\<open>"unknown direction"\<close>) is reached by no enumerator of \<^verbatim>\<open>dbSBox::Direction\<close>.
\<close>

definition special_path_centerline :: "dbSBox \<Rightarrow> fatal + centerline" where
  "special_path_centerline box =
     (let x1 = sb_xMin box; y1 = sb_yMin box; x2 = sb_xMax box; y2 = sb_yMax box;
          dx = x2 - x1; dy = y2 - y1
      in case sb_direction box of
           UNDEFINED \<Rightarrow>
             (let dx_even = (dx AND 1 = 0); dy_even = (dy AND 1 = 0)
              in if dx_even \<and> dy_even then
                   (if dy < dx then collapse_y x1 y1 x2 y2 dy else collapse_x x1 y1 x2 y2 dx)
                 else if dx_even then collapse_x x1 y1 x2 y2 dx
                 else if dy_even then collapse_y x1 y1 x2 y2 dy
                 else Inl (ZException ''odd dimension in both directions''))
         | HORIZONTAL \<Rightarrow> collapse_y x1 y1 x2 y2 dy
         | VERTICAL \<Rightarrow> collapse_x x1 y1 x2 y2 dx
         | OCTILINEAR \<Rightarrow>
             (let oct = sb_oct box
              in Inr \<lparr>cl_w = oct_width oct,
                      cl_x1 = fst (oct_center_low oct), cl_y1 = snd (oct_center_low oct),
                      cl_x2 = fst (oct_center_high oct), cl_y2 = snd (oct_center_high oct)\<rparr>))"

text \<open>
  The four \<^verbatim>\<open>fprintf\<close> calls that end \<^verbatim>\<open>writeSpecialPath\<close>: the layer name, the width
  \<^verbatim>\<open>defdist(w)\<close> of the unsigned \<open>w\<close>, and the two end points of the centerline, with the
  shape type and the mask where the box has them. The mask is a \<^verbatim>\<open>uint\<close> printed with
  \<^verbatim>\<open>%d\<close>.
\<close>

definition special_path_text :: "defout_impl \<Rightarrow> dbSBox \<Rightarrow> centerline \<Rightarrow> string" where
  "special_path_text w box c =
     (let ln = layer_out_name w (sb_layer box);
          mask = sb_layer_mask box;
          sw = show_int (defdist_int w (uint (cl_w c)));
          p1 = paren_xy (defdist_int w (sint (cl_x1 c))) (defdist_int w (sint (cl_y1 c)));
          p2 = paren_xy (defdist_int w (sint (cl_x2 c))) (defdist_int w (sint (cl_y2 c)))
      in if mask \<noteq> 0 then
           (case sb_shape_type box of
              SHAPE_NONE \<Rightarrow>
                '' '' @ ln @ '' '' @ sw @ '' '' @ p1 @ '' MASK '' @ show_int (sint mask) @ '' '' @ p2
            | SHAPE_OTHER s \<Rightarrow>
                '' '' @ ln @ '' '' @ sw @ '' + SHAPE '' @ s @ '' + MASK '' @ show_int (sint mask)
                  @ '' + '' @ p1 @ '' '' @ p2)
         else
           (case sb_shape_type box of
              SHAPE_NONE \<Rightarrow> '' '' @ ln @ '' '' @ sw @ '' '' @ p1 @ '' '' @ p2
            | SHAPE_OTHER s \<Rightarrow> '' '' @ ln @ '' '' @ sw @ '' + SHAPE '' @ s @ '' '' @ p1 @ '' '' @ p2))"

text \<open>
  \<^verbatim>\<open>writeSpecialPath\<close>: the fatal error is thrown before anything is written for the box.
\<close>

definition writeSpecialPath :: "defout_impl \<Rightarrow> dbSBox \<Rightarrow> fatal + out" where
  "writeSpecialPath w box =
     (case special_path_centerline box of
        Inl e \<Rightarrow> Inl e
      | Inr c \<Rightarrow> Inr [special_path_text w box c])"

section \<open>Property system\<close>

text \<open>
  The categories of \<^verbatim>\<open>defout_impl::ObjType\<close>, as the string comparison chain of
  \<^verbatim>\<open>writePropertyDefinitions\<close> names them.
\<close>

datatype ObjType =
  COMPONENT | COMPONENTPIN | DESIGN | GROUP | NET | NONDEFAULTRULE | REGION | ROW | SPECIALNET

text \<open>
  A property value with its type tag (\<^verbatim>\<open>dbProperty::getType()\<close>). A double carries its
  \<^verbatim>\<open>%G\<close> rendering, which is floating-point formatting outside this model.
\<close>

datatype prop_val = StringVal string | IntVal int | DoubleVal string | BoolVal bool

record dbProperty =
  p_name :: string
  p_val :: prop_val

text \<open>
  A property schema entry below a category node of the reserved container
  \<^verbatim>\<open>__ADS_DEF_PROPERTY_DEFINITIONS__\<close>: its name, its typed value and its optional
  \<^verbatim>\<open>MIN\<close>, \<^verbatim>\<open>MAX\<close> and \<^verbatim>\<open>VALUE\<close> children.
\<close>

record dbPropertyDef =
  d_name :: string
  d_val :: prop_val
  d_min :: "prop_val option"
  d_max :: "prop_val option"
  d_value :: "prop_val option"

text \<open>
  \<^verbatim>\<open>_prop_defs\<close>: one \<^verbatim>\<open>std::map<std::string, bool>\<close> per category. The member is
  declared in \<^verbatim>\<open>defout_impl.h\<close>; a map is empty when the writer is constructed, which
  \<open>empty_prop_defs\<close> is.
\<close>

type_synonym prop_defs = "ObjType \<Rightarrow> string \<rightharpoonup> bool"

definition empty_prop_defs :: prop_defs where
  "empty_prop_defs = (\<lambda>t. Map.empty)"

definition obj_type_of :: "string \<Rightarrow> ObjType option" where
  "obj_type_of objType =
     (if objType = ''COMPONENT'' then Some COMPONENT
      else if objType = ''COMPONENTPIN'' then Some COMPONENTPIN
      else if objType = ''DESIGN'' then Some DESIGN
      else if objType = ''GROUP'' then Some GROUP
      else if objType = ''NET'' then Some NET
      else if objType = ''NONDEFAULTRULE'' then Some NONDEFAULTRULE
      else if objType = ''REGION'' then Some REGION
      else if objType = ''ROW'' then Some ROW
      else if objType = ''SPECIALNET'' then Some SPECIALNET
      else None)"

text \<open>
  \<^verbatim>\<open>writePropValue\<close>. The \<^verbatim>\<open>DOUBLE_PROP\<close> case has no \<^verbatim>\<open>break\<close> and falls into
  \<^verbatim>\<open>default: break;\<close>, which writes nothing more.
\<close>

fun writePropValue :: "prop_val \<Rightarrow> out" where
  "writePropValue (StringVal v) = [[CHR 0x22] @ v @ [CHR 0x22] @ '' '']"
| "writePropValue (IntVal v) = [show_int v @ '' '']"
| "writePropValue (DoubleVal g) = [g @ '' '']"
| "writePropValue (BoolVal b) = []"

text \<open>
  The inner loop of \<^verbatim>\<open>writePropertyDefinitions\<close> over the schema entries of one category:
  the name is registered first (\<^verbatim>\<open>defs_map[name] = true\<close>), then the entry is printed; an
  entry of any other type than string, integer or double is registered but not printed
  (\<^verbatim>\<open>default: continue\<close>).
\<close>

fun write_prop_def :: "string \<Rightarrow> dbPropertyDef \<Rightarrow> out" where
  "write_prop_def objType d =
     (let range = (case (d_min d, d_max d) of
                     (Some mn, Some mx) \<Rightarrow> [''RANGE ''] @ writePropValue mn @ writePropValue mx
                   | _ \<Rightarrow> []);
          val = (case d_value d of Some v \<Rightarrow> writePropValue v | None \<Rightarrow> [])
      in case d_val d of
           StringVal _ \<Rightarrow> [objType @ '' '' @ d_name d @ '' STRING ''] @ range @ val @ ['';\<newline>'']
         | IntVal _ \<Rightarrow> [objType @ '' '' @ d_name d @ '' INTEGER ''] @ range @ val @ ['';\<newline>'']
         | DoubleVal _ \<Rightarrow> [objType @ '' '' @ d_name d @ '' REAL ''] @ range @ val @ ['';\<newline>'']
         | BoolVal _ \<Rightarrow> [])"

fun register_props :: "string \<Rightarrow> dbPropertyDef list \<Rightarrow> (string \<rightharpoonup> bool) \<Rightarrow> out \<times> (string \<rightharpoonup> bool)" where
  "register_props objType [] defs_map = ([], defs_map)"
| "register_props objType (d # ds) defs_map =
     (let defs_map' = defs_map(d_name d \<mapsto> True);
          r = register_props objType ds defs_map'
      in (write_prop_def objType d @ fst r, snd r))"

text \<open>The outer loop, over the category nodes; an unknown category name is skipped.\<close>

fun register_obj_types :: "(string \<times> dbPropertyDef list) list \<Rightarrow> prop_defs \<Rightarrow> out \<times> prop_defs" where
  "register_obj_types [] pd = ([], pd)"
| "register_obj_types ((objType, props) # rest) pd =
     (case obj_type_of objType of
        None \<Rightarrow> register_obj_types rest pd
      | Some t \<Rightarrow>
          (let r = register_props objType props (pd t);
               r' = register_obj_types rest (pd(t := snd r))
           in (fst r @ fst r', snd r')))"

text \<open>
  \<^verbatim>\<open>writePropertyDefinitions\<close>: nothing is written or registered when the block has no
  reserved container (\<^verbatim>\<open>defs == nullptr\<close>).
\<close>

definition writePropertyDefinitions ::
  "(string \<times> dbPropertyDef list) list option \<Rightarrow> prop_defs \<Rightarrow> out \<times> prop_defs" where
  "writePropertyDefinitions defs pd =
     (case defs of
        None \<Rightarrow> ([], pd)
      | Some obj_types \<Rightarrow>
          (let r = register_obj_types obj_types pd
           in ([''PROPERTYDEFINITIONS\<newline>''] @ fst r @ [''END PROPERTYDEFINITIONS\<newline>''], snd r)))"

text \<open>
  \<^verbatim>\<open>hasProperties\<close>: true at the first property of the object whose name is a key of the
  category's map.
\<close>

fun hasProperties :: "prop_defs \<Rightarrow> dbProperty list \<Rightarrow> ObjType \<Rightarrow> bool" where
  "hasProperties pd [] t = False"
| "hasProperties pd (prop # props) t =
     (if pd t (p_name prop) \<noteq> None then True else hasProperties pd props t)"

text \<open>
  \<^verbatim>\<open>writeProperties\<close>: every property of the object is written. The counter \<^verbatim>\<open>cnt\<close> is
  initialised to 0 and never incremented, so the line break guarded by
  \<^verbatim>\<open>cnt && ((cnt & 3) == 0)\<close> is never written.
\<close>

fun writeProperties_loop :: "int \<Rightarrow> dbProperty list \<Rightarrow> out" where
  "writeProperties_loop cnt [] = []"
| "writeProperties_loop cnt (prop # props) =
     (if cnt \<noteq> 0 \<and> cnt AND 3 = 0 then [''\<newline>    ''] else [])
     @ [p_name prop @ '' ''] @ writePropValue (p_val prop)
     @ writeProperties_loop cnt props"

definition writeProperties :: "dbProperty list \<Rightarrow> out" where
  "writeProperties props = writeProperties_loop 0 props"

text \<open>
  The guarded emission every section writer uses:
  \<^verbatim>\<open>if (hasProperties(obj, T)) { fprintf(_out, " + PROPERTY "); writeProperties(obj); }\<close>
\<close>

definition property_clause :: "prop_defs \<Rightarrow> ObjType \<Rightarrow> string \<Rightarrow> dbProperty list \<Rightarrow> out" where
  "property_clause pd t keyword props =
     (if hasProperties pd props t then [keyword] @ writeProperties props else [])"

section \<open>Selection and filter builder\<close>

text \<open>
  \<^verbatim>\<open>_select_net_map\<close> and \<^verbatim>\<open>_select_inst_map\<close> are pointers to a \<^verbatim>\<open>dbMap<T, char>\<close>.
  Objects are identified by their database id, and an entry is read only for its truth
  value. The class \<^verbatim>\<open>dbMap\<close> and the constructor of the writer are outside the sources at
  hand (\<^verbatim>\<open>odb/dbMap.h\<close>, \<^verbatim>\<open>defout_impl.h\<close>): a fresh map holds 0 for every object
  (\<open>new_dbMap\<close>), and the two pointers are null when a writer starts its pass
  (\<open>no_selection\<close>), the maps being created by the pass itself.
\<close>

type_synonym dbMap = "nat \<Rightarrow> bool"

definition new_dbMap :: dbMap where
  "new_dbMap = (\<lambda>_. False)"

record selection =
  select_net_map :: "dbMap option"
  select_inst_map :: "dbMap option"

definition no_selection :: selection where
  "no_selection = \<lparr>select_net_map = None, select_inst_map = None\<rparr>"

record dbITerm =
  it_inst_id :: nat
  it_inst_name :: string
  it_mterm_name :: string
  it_special :: bool

text \<open>What the selection loop reads of a selected net.\<close>

record dbNetSel =
  ns_id :: nat
  ns_special :: bool
  ns_mark_1ed :: bool
  ns_iterms :: "dbITerm list"

fun mark_iterm_insts :: "dbITerm list \<Rightarrow> dbMap \<Rightarrow> dbMap" where
  "mark_iterm_insts [] m = m"
| "mark_iterm_insts (t # ts) m = mark_iterm_insts ts (m(it_inst_id t := True))"

text \<open>
  The loop over \<^verbatim>\<open>_select_net_list\<close>; the net map has been created before it, the instance
  map is created at the first selected net that is neither special nor mark-1ed.
\<close>

fun select_nets_loop :: "dbNetSel list \<Rightarrow> dbMap \<Rightarrow> dbMap option \<Rightarrow> dbMap \<times> dbMap option" where
  "select_nets_loop [] nm im = (nm, im)"
| "select_nets_loop (net # rest) nm im =
     (let nm' = nm(ns_id net := True)
      in if ns_special net \<or> ns_mark_1ed net then select_nets_loop rest nm' im
         else
           (let im0 = (case im of None \<Rightarrow> new_dbMap | Some m \<Rightarrow> m)
            in select_nets_loop rest nm' (Some (mark_iterm_insts (ns_iterms net) im0))))"

fun mark_insts :: "nat list \<Rightarrow> dbMap \<Rightarrow> dbMap" where
  "mark_insts [] m = m"
| "mark_insts (i # is) m = mark_insts is (m(i := True))"

text \<open>
  The first two \<^verbatim>\<open>if\<close> blocks of \<^verbatim>\<open>writeBlock\<close> (and, identically, of \<^verbatim>\<open>writeBlock_Pl\<close>),
  from the writer's maps \<open>s\<close> on entry.
\<close>

definition build_selection :: "dbNetSel list \<Rightarrow> nat list \<Rightarrow> selection \<Rightarrow> selection" where
  "build_selection select_net_list select_inst_list s =
     (let s1 = (if select_net_list \<noteq> [] then
                  (let r = select_nets_loop select_net_list new_dbMap (select_inst_map s)
                   in \<lparr>select_net_map = Some (fst r), select_inst_map = snd r\<rparr>)
                else s)
      in if select_inst_list \<noteq> [] then
           (let im0 = (case select_inst_map s1 of None \<Rightarrow> new_dbMap | Some m \<Rightarrow> m)
            in s1\<lparr>select_inst_map := Some (mark_insts select_inst_list im0)\<rparr>)
         else s1)"

text \<open>
  The instance filter of the section writers:
  \<^verbatim>\<open>if (_select_inst_map && !(*_select_inst_map)[inst]) continue;\<close>
\<close>

definition inst_selected :: "selection \<Rightarrow> nat \<Rightarrow> bool" where
  "inst_selected s i = (case select_inst_map s of None \<Rightarrow> True | Some m \<Rightarrow> m i)"

text \<open>The net filter: \<^verbatim>\<open>if (_select_net_map && !(*_select_net_map)[net]) continue;\<close>\<close>

definition net_selected :: "selection \<Rightarrow> nat \<Rightarrow> bool" where
  "net_selected s n = (case select_net_map s of None \<Rightarrow> True | Some m \<Rightarrow> m n)"

section \<open>Components: writeInsts and writeInst\<close>

datatype dbSourceType = SRC_NONE | SRC_NETLIST | SRC_DIST | SRC_USER | SRC_TIMING | SRC_TEST

datatype dbPlacementStatus = PS_NONE | UNPLACED | SUGGESTED | PLACED | LOCKED | FIRM | COVER

datatype dbOrientType = R0 | R90 | R180 | R270 | MY | MYR90 | MX | MXR90

fun defOrient :: "dbOrientType \<Rightarrow> string" where
  "defOrient R0 = ''N''"
| "defOrient R90 = ''W''"
| "defOrient R180 = ''S''"
| "defOrient R270 = ''E''"
| "defOrient MY = ''FN''"
| "defOrient MYR90 = ''FE''"
| "defOrient MX = ''FS''"
| "defOrient MXR90 = ''FW''"

record dbBox =
  box_xMin :: int
  box_yMin :: int
  box_xMax :: int
  box_yMax :: int

text \<open>
  An instance. \<open>inst_region\<close> is the owning region, if any, as its name and whether it has
  at least one boundary (\<^verbatim>\<open>!region->getBoundaries().empty()\<close>).
\<close>

record dbInst =
  inst_id :: nat
  inst_name :: string
  inst_master_name :: string
  inst_master_id :: nat
  inst_source :: dbSourceType
  inst_x :: int
  inst_y :: int
  inst_orient :: dbOrientType
  inst_status :: dbPlacementStatus
  inst_weight :: int
  inst_region :: "(string \<times> bool) option"
  inst_props :: "dbProperty list"
  inst_halo :: "dbBox option"

text \<open>\<^verbatim>\<open>fprintf(_out, " + HALO %d %d %d %d", left, bottom, right, top);\<close>\<close>

definition halo_field :: "defout_impl \<Rightarrow> dbBox \<Rightarrow> string" where
  "halo_field w box =
     '' + HALO '' @ show_int (defdist w (box_xMin box))
       @ '' '' @ show_int (defdist w (box_yMin box))
       @ '' '' @ show_int (defdist w (box_xMax box))
       @ '' '' @ show_int (defdist w (box_yMax box))"

definition writeInst :: "defout_impl \<Rightarrow> prop_defs \<Rightarrow> dbInst \<Rightarrow> out" where
  "writeInst w pd inst =
     (let iname = (if use_net_inst_ids w then ''I'' @ show_nat (inst_id inst) else inst_name inst);
          mname = (if use_master_ids w then ''M'' @ show_nat (inst_master_id inst)
                   else inst_master_name inst);
          x = defdist w (inst_x inst);
          y = defdist w (inst_y inst);
          orient = defOrient (inst_orient inst)
      in [''    - '' @ iname @ '' '' @ mname]
         @ (case inst_source inst of
              SRC_NONE \<Rightarrow> []
            | SRC_NETLIST \<Rightarrow> ['' + SOURCE NETLIST'']
            | SRC_DIST \<Rightarrow> ['' + SOURCE DIST'']
            | SRC_USER \<Rightarrow> ['' + SOURCE USER'']
            | SRC_TIMING \<Rightarrow> ['' + SOURCE TIMING'']
            | SRC_TEST \<Rightarrow> [])
         @ (case inst_status inst of
              PS_NONE \<Rightarrow> []
            | UNPLACED \<Rightarrow> ['' + UNPLACED'']
            | SUGGESTED \<Rightarrow> ['' + PLACED '' @ paren_xy x y @ '' '' @ orient]
            | PLACED \<Rightarrow> ['' + PLACED '' @ paren_xy x y @ '' '' @ orient]
            | LOCKED \<Rightarrow> ['' + FIXED '' @ paren_xy x y @ '' '' @ orient]
            | FIRM \<Rightarrow> ['' + FIXED '' @ paren_xy x y @ '' '' @ orient]
            | COVER \<Rightarrow> ['' + COVER '' @ paren_xy x y @ '' '' @ orient])
         @ (if inst_weight inst \<noteq> 0 then ['' + WEIGHT '' @ show_int (inst_weight inst)] else [])
         @ (case inst_region inst of
              None \<Rightarrow> []
            | Some (rname, has_boundaries) \<Rightarrow>
                if has_boundaries then ['' + REGION '' @ rname] else [])
         @ property_clause pd COMPONENT '' + PROPERTY '' (inst_props inst)
         @ (if ver_ge (version w) DEF_5_6 then
              (case inst_halo inst of
                 None \<Rightarrow> []
               | Some box \<Rightarrow> [halo_field w box])
            else [])
         @ ['' ;\<newline>''])"

text \<open>
  \<^verbatim>\<open>sortedSet\<close>: the objects of a set ordered by name (\<^verbatim>\<open>std::string\<close>'s \<^verbatim>\<open><\<close>, bytewise).
  Names are unique within a category, so the order is determined; the model inserts by
  name, comparing strings lexicographically on character codes.
\<close>

fun string_less :: "string \<Rightarrow> string \<Rightarrow> bool" where
  "string_less [] [] = False"
| "string_less [] (b # bs) = True"
| "string_less (a # as) [] = False"
| "string_less (a # as) (b # bs) =
     (if (of_char a :: nat) < of_char b then True
      else if (of_char b :: nat) < of_char a then False
      else string_less as bs)"

fun insert_by_name :: "('a \<Rightarrow> string) \<Rightarrow> 'a \<Rightarrow> 'a list \<Rightarrow> 'a list" where
  "insert_by_name name x [] = [x]"
| "insert_by_name name x (y # ys) =
     (if string_less (name x) (name y) then x # y # ys else y # insert_by_name name x ys)"

fun sortedSet :: "('a \<Rightarrow> string) \<Rightarrow> 'a list \<Rightarrow> 'a list" where
  "sortedSet name [] = []"
| "sortedSet name (x # xs) = insert_by_name name x (sortedSet name xs)"

text \<open>
  \<^verbatim>\<open>writeInsts\<close>. The header prints \<^verbatim>\<open>insts.size()\<close>; the loop calls \<^verbatim>\<open>writeInst\<close>, which
  writes one component record, for each instance that passes the instance filter.
\<close>

definition insts_written :: "selection \<Rightarrow> dbInst list \<Rightarrow> dbInst list" where
  "insts_written sel insts = filter (\<lambda>i. inst_selected sel (inst_id i)) (sortedSet inst_name insts)"

definition insts_declared :: "dbInst list \<Rightarrow> nat" where
  "insts_declared insts = length insts"

definition writeInsts :: "defout_impl \<Rightarrow> prop_defs \<Rightarrow> selection \<Rightarrow> dbInst list \<Rightarrow> out" where
  "writeInsts w pd sel insts =
     [''COMPONENTS '' @ show_nat (insts_declared insts) @ '' ;\<newline>'']
     @ concat (map (writeInst w pd) (insts_written sel insts))
     @ [''END COMPONENTS\<newline>'']"

text \<open>The placement-only variants: \<^verbatim>\<open>writeInst_Pl\<close> and \<^verbatim>\<open>writeInsts_Pl\<close>.\<close>

definition writeInst_Pl :: "defout_impl \<Rightarrow> dbInst \<Rightarrow> out" where
  "writeInst_Pl w inst =
     (let x = defdist w (inst_x inst);
          y = defdist w (inst_y inst);
          line = '' '' @ show_int x @ '' '' @ show_int y @ '' : '' @ defOrient (inst_orient inst)
                   @ ''\<newline>''
      in [if use_net_inst_ids w then ''I'' @ show_nat (inst_id inst) else inst_name inst]
         @ (case inst_status inst of
              PS_NONE \<Rightarrow> []
            | UNPLACED \<Rightarrow> []
            | SUGGESTED \<Rightarrow> [line]
            | PLACED \<Rightarrow> [line]
            | LOCKED \<Rightarrow> [line]
            | FIRM \<Rightarrow> [line]
            | COVER \<Rightarrow> [line]))"

definition writeInsts_Pl :: "defout_impl \<Rightarrow> selection \<Rightarrow> dbInst list \<Rightarrow> out" where
  "writeInsts_Pl w sel insts = concat (map (writeInst_Pl w) (insts_written sel insts))"

section \<open>Pins: writeBTerms, writeBTerm and writeBPin\<close>

record dbPinBox =
  pb_xMin :: int
  pb_yMin :: int
  pb_xMax :: int
  pb_yMax :: int
  pb_layer :: dbTechLayer
  pb_layer_mask :: nat

record dbBPin =
  bp_boxes :: "dbPinBox list"
  bp_status :: dbPlacementStatus
  bp_effective_width :: "int option"
  bp_min_spacing :: "int option"

text \<open>What a pin reads of the net it is connected to: the id and the name.\<close>

record dbNetRef =
  nr_id :: nat
  nr_name :: string

text \<open>
  A design pin. \<open>bt_io_type\<close> and \<open>bt_sig_type\<close> hold the strings that
  \<^verbatim>\<open>dbIoType::getString\<close> and \<^verbatim>\<open>dbSigType::getString\<close> return; \<open>bt_supply_pin\<close> and
  \<open>bt_ground_pin\<close> hold the names of the supply and ground pins, if set.
\<close>

record dbBTerm =
  bt_name :: string
  bt_net :: "dbNetRef option"
  bt_bpins :: "dbBPin list"
  bt_special :: bool
  bt_io_type :: string
  bt_sig_type :: string
  bt_supply_pin :: "string option"
  bt_ground_pin :: "string option"
  bt_props :: "dbProperty list"

text \<open>The supply and ground sensitivity fields, common to \<^verbatim>\<open>writeBTerm\<close> and \<^verbatim>\<open>writeBPin\<close>.\<close>

definition sensitivity_fields :: "defout_impl \<Rightarrow> dbBTerm \<Rightarrow> out" where
  "sensitivity_fields w bterm =
     (if ver_ge (version w) DEF_5_6 then
        (case bt_supply_pin bterm of
           None \<Rightarrow> []
         | Some pname \<Rightarrow> ['' + SUPPLYSENSITIVITY '' @ pname])
        @ (case bt_ground_pin bterm of
             None \<Rightarrow> []
           | Some pname \<Rightarrow> ['' + GROUNDSENSITIVITY '' @ pname])
      else [])"

definition net_out_name :: "defout_impl \<Rightarrow> dbNetRef \<Rightarrow> string" where
  "net_out_name w net = (if use_net_inst_ids w then ''N'' @ show_nat (nr_id net) else nr_name net)"

text \<open>
  One box of a pin inside \<^verbatim>\<open>writeBPin\<close>, relative to the pin origin \<open>(x, y)\<close> fixed by the
  first box.
\<close>

definition write_pin_box :: "defout_impl \<Rightarrow> dbBPin \<Rightarrow> int \<Rightarrow> int \<Rightarrow> dbPinBox \<Rightarrow> out" where
  "write_pin_box w bpin x y box =
     (let xMin = defdist w (pb_xMin box) - x;
          yMin = defdist w (pb_yMin box) - y;
          xMax = defdist w (pb_xMax box) - x;
          yMax = defdist w (pb_yMax box) - y;
          lname = layer_out_name w (pb_layer box);
          rect = paren_xy xMin yMin @ '' '' @ paren_xy xMax yMax
      in [''\<newline>       '']
         @ (if version w = DEF_5_5 then ['' + LAYER '' @ lname @ '' '' @ rect]
            else
              (let layer_name' =
                     (if version w = DEF_5_8 \<and> pb_layer_mask box \<noteq> 0
                      then lname @ '' MASK '' @ show_nat (pb_layer_mask box) else lname)
               in case bp_effective_width bpin of
                    Some ew \<Rightarrow>
                      ['' + LAYER '' @ layer_name' @ '' DESIGNRULEWIDTH ''
                        @ show_int (defdist w ew) @ '' '' @ rect]
                  | None \<Rightarrow>
                      (case bp_min_spacing bpin of
                         Some ms \<Rightarrow>
                           ['' + LAYER '' @ layer_name' @ '' SPACING ''
                             @ show_int (defdist w ms) @ '' '' @ rect]
                       | None \<Rightarrow> ['' + LAYER '' @ layer_name' @ '' '' @ rect]))))"

text \<open>
  The pin origin: \<^verbatim>\<open>x = defdist(box->xMin()) + defdist(int(box->getDX() / 2))\<close> of the first
  box, and \<open>(0, 0)\<close> when the pin has no box.
\<close>

definition bpin_origin :: "defout_impl \<Rightarrow> dbBPin \<Rightarrow> int \<times> int" where
  "bpin_origin w bpin =
     (case bp_boxes bpin of
        [] \<Rightarrow> (0, 0)
      | box # _ \<Rightarrow>
          (defdist w (pb_xMin box) + defdist w ((pb_xMax box - pb_xMin box) div 2),
           defdist w (pb_yMin box) + defdist w ((pb_yMax box - pb_yMin box) div 2)))"

definition writeBPin :: "defout_impl \<Rightarrow> dbBTerm \<Rightarrow> dbNetRef \<Rightarrow> dbBPin \<Rightarrow> int \<Rightarrow> out" where
  "writeBPin w bterm net bpin cnt =
     (let bname = bt_name bterm;
          xy = bpin_origin w bpin;
          x = fst xy;
          y = snd xy
      in (if cnt = 0 \<or> ver_le (version w) DEF_5_6 then
            [if cnt = 0 then ''    - '' @ bname @ '' + NET '' @ net_out_name w net
             else ''    - '' @ bname @ ''.extra'' @ show_int cnt @ '' + NET '' @ net_out_name w net]
            @ (if bt_special bterm then ['' + SPECIAL''] else [])
            @ ['' + DIRECTION '' @ bt_io_type bterm]
            @ sensitivity_fields w bterm
            @ ['' + USE '' @ bt_sig_type bterm]
          else [])
         @ [''\<newline>      '']
         @ (if ver_gt (version w) DEF_5_6 then [''+ PORT''] else [])
         @ concat (map (write_pin_box w bpin x y) (bp_boxes bpin))
         @ (case bp_status bpin of
              PS_NONE \<Rightarrow> []
            | UNPLACED \<Rightarrow> []
            | SUGGESTED \<Rightarrow> [''\<newline>        + PLACED '' @ paren_xy x y @ '' N'']
            | PLACED \<Rightarrow> [''\<newline>        + PLACED '' @ paren_xy x y @ '' N'']
            | LOCKED \<Rightarrow> [''\<newline>        + FIXED '' @ paren_xy x y @ '' N'']
            | FIRM \<Rightarrow> [''\<newline>        + FIXED '' @ paren_xy x y @ '' N'']
            | COVER \<Rightarrow> [''\<newline>        + COVER '' @ paren_xy x y @ '' N'']))"

fun writeBPins :: "defout_impl \<Rightarrow> dbBTerm \<Rightarrow> dbNetRef \<Rightarrow> dbBPin list \<Rightarrow> int \<Rightarrow> out" where
  "writeBPins w bterm net [] cnt = []"
| "writeBPins w bterm net (bpin # rest) cnt =
     writeBPin w bterm net bpin cnt @ writeBPins w bterm net rest (cnt + 1)"

text \<open>
  \<^verbatim>\<open>writeBTerm\<close> returns what it writes and what it logs: a pin without a net writes nothing
  and logs warning 173.
\<close>

definition writeBTerm :: "defout_impl \<Rightarrow> dbBTerm \<Rightarrow> out \<times> string list" where
  "writeBTerm w bterm =
     (case bt_net bterm of
        Some net \<Rightarrow>
          (if bt_bpins bterm \<noteq> [] then
             (writeBPins w bterm net (bt_bpins bterm) 0 @ ['' ;\<newline>''], [])
           else
             ([''    - '' @ bt_name bterm @ '' + NET '' @ net_out_name w net]
              @ (if bt_special bterm then ['' + SPECIAL''] else [])
              @ ['' + DIRECTION '' @ bt_io_type bterm]
              @ sensitivity_fields w bterm
              @ ['' + USE '' @ bt_sig_type bterm]
              @ ['' ;\<newline>''], []))
      | None \<Rightarrow>
          ([], [''warning: pin '' @ bt_name bterm @ '' skipped because it has no net'']))"

text \<open>
  The pin filter of \<^verbatim>\<open>writeBTerms\<close>:
  \<^verbatim>\<open>if (net && _select_net_map && !(*_select_net_map)[net]) continue;\<close>
\<close>

definition bterm_selected :: "selection \<Rightarrow> dbBTerm \<Rightarrow> bool" where
  "bterm_selected sel bterm =
     (case bt_net bterm of None \<Rightarrow> True | Some net \<Rightarrow> net_selected sel (nr_id net))"

text \<open>The counting loop: \<open>n\<close> is incremented for every pin that passes the filter.\<close>

definition pins_declared :: "selection \<Rightarrow> dbBTerm list \<Rightarrow> nat" where
  "pins_declared sel bterms = length (filter (bterm_selected sel) bterms)"

text \<open>The pins \<^verbatim>\<open>writeBTerm\<close> is called for, and those of them it writes a record for.\<close>

definition pins_visited :: "selection \<Rightarrow> dbBTerm list \<Rightarrow> dbBTerm list" where
  "pins_visited sel bterms = filter (bterm_selected sel) (sortedSet bt_name bterms)"

definition pins_written :: "selection \<Rightarrow> dbBTerm list \<Rightarrow> dbBTerm list" where
  "pins_written sel bterms = filter (\<lambda>b. bt_net b \<noteq> None) (pins_visited sel bterms)"

definition writeBTerms :: "defout_impl \<Rightarrow> selection \<Rightarrow> dbBTerm list \<Rightarrow> out \<times> string list" where
  "writeBTerms w sel bterms =
     (if bterms = [] then ([], [])
      else
        (let rs = map (writeBTerm w) (pins_visited sel bterms)
         in ([''PINS '' @ show_nat (pins_declared sel bterms) @ '' ;\<newline>'']
             @ concat (map fst rs) @ [''END PINS\<newline>''],
             concat (map snd rs))))"

text \<open>The placement-only variants.\<close>

definition writeBPin_Pl :: "defout_impl \<Rightarrow> dbBTerm \<Rightarrow> dbBPin \<Rightarrow> int \<Rightarrow> out" where
  "writeBPin_Pl w bterm bpin cnt =
     (if cnt \<noteq> 0 then []
      else
        (let xy = bpin_origin w bpin;
             place = '' '' @ show_int (fst xy) @ '' '' @ show_int (snd xy) @ '' : N''
         in [bt_name bterm]
            @ (case bp_status bpin of
                 PS_NONE \<Rightarrow> []
               | UNPLACED \<Rightarrow> []
               | SUGGESTED \<Rightarrow> [place]
               | PLACED \<Rightarrow> [place]
               | LOCKED \<Rightarrow> [place]
               | FIRM \<Rightarrow> [place]
               | COVER \<Rightarrow> [place])))"

fun writeBPins_Pl :: "defout_impl \<Rightarrow> dbBTerm \<Rightarrow> dbBPin list \<Rightarrow> int \<Rightarrow> out" where
  "writeBPins_Pl w bterm [] cnt = []"
| "writeBPins_Pl w bterm (bpin # rest) cnt =
     writeBPin_Pl w bterm bpin cnt @ writeBPins_Pl w bterm rest (cnt + 1)"

definition writeBTerm_Pl :: "defout_impl \<Rightarrow> dbBTerm \<Rightarrow> out" where
  "writeBTerm_Pl w bterm =
     (case bt_net bterm of
        Some net \<Rightarrow> writeBPins_Pl w bterm (bt_bpins bterm) 0 @ [''\<newline>'']
      | None \<Rightarrow> [])"

definition writeBTerms_Pl :: "defout_impl \<Rightarrow> selection \<Rightarrow> dbBTerm list \<Rightarrow> out" where
  "writeBTerms_Pl w sel bterms =
     (if bterms = [] then []
      else concat (map (writeBTerm_Pl w) (pins_visited sel bterms)))"

section \<open>Wire path encoder: writeWire\<close>

text \<open>
  A non-default rule is an object of the technology; the writer compares rules by pointer,
  that is by identity, which the id stands for.
\<close>

record dbTechNonDefaultRule =
  ndr_id :: nat
  ndr_name :: string

text \<open>
  A via of the block. A rotated via names its technology via if it has one, and its block
  via otherwise.
\<close>

record dbVia =
  via_name :: string
  via_rotated :: bool
  via_orient :: dbOrientType
  via_tech_via :: "string option"
  via_block_via :: string

text \<open>
  The events \<^verbatim>\<open>dbWireDecoder::next()\<close> yields, each with what the writer reads of the
  decoder after it. The decoder itself is outside the sources at hand: a wire is the list of
  its events, up to and excluding \<^verbatim>\<open>END_DECODE\<close>. A \<^verbatim>\<open>RULE\<close> event carries the
  non-default rule of the layer rule it reports (\<^verbatim>\<open>decode.getRule()->getNonDefaultRule()\<close>),
  which the writer dereferences without a test. Coordinates and counters are C++ \<^verbatim>\<open>int\<close>s;
  they are modelled as integers, a path of 2^31 tokens being out of reach.
\<close>

datatype OpCode =
    PATH dbTechLayer dbWireType
  | SHORT dbTechLayer dbWireType
  | VWIRE dbTechLayer dbWireType
  | JUNCTION dbTechLayer dbWireType
  | POINT int int
  | POINT_EXT int int int
  | VIA dbVia
  | TECH_VIA string
  | ITERM
  | BTERM
  | RULE dbTechNonDefaultRule
  | RECT int int int int

record ViaColor =
  top_color :: nat
  cut_color :: nat
  bottom_color :: nat

record decoded =
  opcode :: OpCode
  color :: "nat option"
  viacolor :: "ViaColor option"

fun is_RULE :: "OpCode \<Rightarrow> bool" where
  "is_RULE (RULE r) = True"
| "is_RULE x = False"

text \<open>\<^verbatim>\<open>decode.peek() != dbWireDecoder::RULE\<close>, on the events still to come.\<close>

fun peek_not_RULE :: "decoded list \<Rightarrow> bool" where
  "peek_not_RULE [] = True"
| "peek_not_RULE (d # ds) = (\<not> is_RULE (opcode d))"

text \<open>The local variables of \<^verbatim>\<open>writeWire\<close> that live across iterations.\<close>

record wire_state =
  prev_wire_type :: dbWireType
  point_cnt :: int
  path_cnt :: int
  prev_x :: int
  prev_y :: int

definition INT_MAX :: int where
  "INT_MAX = 2147483647"

definition wire_state_init :: wire_state where
  "wire_state_init =
     \<lparr>prev_wire_type = WT_NONE, point_cnt = 0, path_cnt = 0, prev_x = INT_MAX, prev_y = INT_MAX\<rparr>"

text \<open>\<^verbatim>\<open>if ((++point_cnt & 7) == 0) fprintf(_out, "\n    ");\<close> on the incremented counter.\<close>

definition line_break :: "int \<Rightarrow> out" where
  "line_break pc = (if pc AND 7 = 0 then [''\<newline>    ''] else [])"

definition via_mask_statement :: "defout_impl \<Rightarrow> ViaColor option \<Rightarrow> string" where
  "via_mask_statement w vc =
     (case vc of
        None \<Rightarrow> []
      | Some c \<Rightarrow>
          if ver_ge (version w) DEF_5_8
          then ''MASK '' @ show_nat (top_color c) @ show_nat (cut_color c)
                 @ show_nat (bottom_color c) @ '' ''
          else [])"

text \<open>The \<^verbatim>\<open>PATH\<close>, \<^verbatim>\<open>SHORT\<close>, \<^verbatim>\<open>VWIRE\<close> and \<^verbatim>\<open>JUNCTION\<close> cases share one body.\<close>

definition path_start ::
  "defout_impl \<Rightarrow> dbTechNonDefaultRule option \<Rightarrow> dbWireType \<Rightarrow> bool \<Rightarrow>
   dbTechLayer \<Rightarrow> dbWireType \<Rightarrow> wire_state \<Rightarrow> out \<times> wire_state" where
  "path_start w non_default_rule net_wire_type next_not_rule layer decoded_type st =
     (let lname = layer_out_name w layer;
          wire_type = (if net_wire_type = WT_FIXED then WT_FIXED else decoded_type)
      in ((if path_cnt st = 0 \<or> wire_type \<noteq> prev_wire_type st
           then [''\<newline>      + '' @ wire_type_str w wire_type @ '' '' @ lname]
           else [''\<newline>      NEW '' @ lname])
          @ (if non_default_rule \<noteq> None \<and> next_not_rule then ['' TAPER''] else []),
          st\<lparr>prev_wire_type := wire_type, point_cnt := 0, path_cnt := path_cnt st + 1\<rparr>))"

text \<open>
  The \<^verbatim>\<open>POINT\<close> case: the coordinate token, if any, of an ordinary point, from the
  incremented counter \<open>pc\<close>, the converted coordinates and the previous point.
\<close>

definition point_token :: "int \<Rightarrow> string \<Rightarrow> int \<Rightarrow> int \<Rightarrow> int \<Rightarrow> int \<Rightarrow> out" where
  "point_token pc mask_statement x y px py =
     (if pc = 1 then ['' ( '' @ show_int x @ '' '' @ show_int y @ '' )'']
      else if x = px then [mask_statement @ '' ( * '' @ show_int y @ '' )'']
      else if y = py then [mask_statement @ '' ( '' @ show_int x @ '' * )'']
      else [])"

text \<open>\<^verbatim>\<open>if (point_cnt % 2 == 0 && color) mask_statement = fmt::format("MASK {}", ...)\<close>\<close>

definition point_mask_statement :: "int \<Rightarrow> nat option \<Rightarrow> string" where
  "point_mask_statement pc col =
     (case col of
        None \<Rightarrow> []
      | Some c \<Rightarrow> if pc mod 2 = 0 then ''MASK '' @ show_nat c else [])"

definition point_ext_token :: "int \<Rightarrow> int \<Rightarrow> int \<Rightarrow> int \<Rightarrow> int \<Rightarrow> int \<Rightarrow> out" where
  "point_ext_token pc x y ext px py =
     (if pc = 1 then ['' ( '' @ show_int x @ '' '' @ show_int y @ '' '' @ show_int ext @ '' )'']
      else if x = px \<and> y = py then ['' ( * * '' @ show_int ext @ '' )'']
      else if x = px then ['' ( * '' @ show_int y @ '' '' @ show_int ext @ '' )'']
      else if y = py then ['' ( '' @ show_int x @ '' * '' @ show_int ext @ '' )'']
      else [])"

text \<open>
  The \<^verbatim>\<open>RULE\<close> case: inside \<^verbatim>\<open>if (point_cnt == 0)\<close>, the rule is named when no non-default
  rule is active for the net, or when the active one is another rule.
\<close>

definition rule_token :: "dbTechNonDefaultRule option \<Rightarrow> dbTechNonDefaultRule \<Rightarrow> wire_state \<Rightarrow> out" where
  "rule_token non_default_rule taper_rule st =
     (if point_cnt st = 0 then
        (case non_default_rule of
           None \<Rightarrow> ['' TAPERRULE '' @ ndr_name taper_rule @ '' '']
         | Some active \<Rightarrow>
             if ndr_id active \<noteq> ndr_id taper_rule
             then ['' TAPERRULE '' @ ndr_name taper_rule @ '' '']
             else [])
      else [])"

text \<open>
  One iteration of the decoding loop: what it writes and the state it leaves. \<open>rest\<close> is
  the part of the stream after the event, which \<^verbatim>\<open>peek\<close> looks into.
\<close>

definition wire_step ::
  "defout_impl \<Rightarrow> dbTechNonDefaultRule option \<Rightarrow> dbWireType \<Rightarrow> decoded list \<Rightarrow>
   decoded \<Rightarrow> wire_state \<Rightarrow> out \<times> wire_state" where
  "wire_step w ndr nwt rest d st =
     (case opcode d of
        PATH layer wt \<Rightarrow> path_start w ndr nwt (peek_not_RULE rest) layer wt st
      | SHORT layer wt \<Rightarrow> path_start w ndr nwt (peek_not_RULE rest) layer wt st
      | VWIRE layer wt \<Rightarrow> path_start w ndr nwt (peek_not_RULE rest) layer wt st
      | JUNCTION layer wt \<Rightarrow> path_start w ndr nwt (peek_not_RULE rest) layer wt st
      | POINT rx ry \<Rightarrow>
          (let x = defdist w rx; y = defdist w ry; pc = point_cnt st + 1
           in (line_break pc
               @ point_token pc (point_mask_statement pc (color d)) x y (prev_x st) (prev_y st),
               st\<lparr>point_cnt := pc, prev_x := x, prev_y := y\<rparr>))
      | POINT_EXT rx ry rext \<Rightarrow>
          (let x = defdist w rx; y = defdist w ry; ext = defdist w rext; pc = point_cnt st + 1
           in (line_break pc @ point_ext_token pc x y ext (prev_x st) (prev_y st),
               st\<lparr>point_cnt := pc, prev_x := x, prev_y := y\<rparr>))
      | VIA via \<Rightarrow>
          (let pc = point_cnt st + 1;
               vms = via_mask_statement w (viacolor d)
           in (line_break pc
               @ (if ver_ge (version w) DEF_5_6 \<and> via_rotated via then
                    (let vname = (case via_tech_via via of
                                    Some tv \<Rightarrow> tv
                                  | None \<Rightarrow> via_block_via via)
                     in ['' '' @ vms @ vname @ '' '' @ defOrient (via_orient via)])
                  else ['' '' @ vms @ via_name via]),
               st\<lparr>point_cnt := pc\<rparr>))
      | TECH_VIA vname \<Rightarrow>
          (let pc = point_cnt st + 1
           in (line_break pc @ ['' '' @ via_mask_statement w (viacolor d) @ vname],
               st\<lparr>point_cnt := pc\<rparr>))
      | ITERM \<Rightarrow> ([], st)
      | BTERM \<Rightarrow> ([], st)
      | RULE taper_rule \<Rightarrow> (rule_token ndr taper_rule st, st)
      | RECT dx1 dy1 dx2 dy2 \<Rightarrow>
          (let pc = point_cnt st + 1;
               deltas = show_int (defdist w dx1) @ '' '' @ show_int (defdist w dy1) @ '' ''
                          @ show_int (defdist w dx2) @ '' '' @ show_int (defdist w dy2)
           in (line_break pc
               @ (case color d of
                    Some c \<Rightarrow> ['' RECT MASK '' @ show_nat c @ '' ( '' @ deltas @ '' ) '']
                  | None \<Rightarrow> ['' RECT ( '' @ deltas @ '' ) '']),
               st\<lparr>point_cnt := pc\<rparr>)))"

text \<open>The loop: it ends, writing nothing more, when the decoder reports \<^verbatim>\<open>END_DECODE\<close>.\<close>

fun wire_loop ::
  "defout_impl \<Rightarrow> dbTechNonDefaultRule option \<Rightarrow> dbWireType \<Rightarrow> decoded list \<Rightarrow>
   wire_state \<Rightarrow> out" where
  "wire_loop w ndr nwt [] st = []"
| "wire_loop w ndr nwt (d # rest) st =
     (let r = wire_step w ndr nwt rest d st
      in fst r @ wire_loop w ndr nwt rest (snd r))"

text \<open>
  \<^verbatim>\<open>writeWire\<close>, for a wire of a net whose wire type is \<open>nwt\<close>, with \<^verbatim>\<open>_non_default_rule\<close>
  as \<^verbatim>\<open>writeNet\<close> has set it.
\<close>

definition writeWire ::
  "defout_impl \<Rightarrow> dbTechNonDefaultRule option \<Rightarrow> dbWireType \<Rightarrow> decoded list \<Rightarrow> out" where
  "writeWire w ndr nwt wire = wire_loop w ndr nwt wire wire_state_init"

section \<open>Special wires: writeSWire\<close>

text \<open>
  What a part of the pass has done: what it wrote, what it logged, and the fatal error that
  ended it, if one was raised. Nothing in \<^verbatim>\<open>defout_impl.cpp\<close> catches an exception, so a
  fatal error ends every enclosing writer: \<open>run_then a b\<close> runs \<open>b\<close> only when \<open>a\<close>
  has not ended in one.
\<close>

record run =
  r_out :: out
  r_warnings :: "string list"
  r_fatal :: "fatal option"

definition run_ok :: "out \<Rightarrow> run" where
  "run_ok written = \<lparr>r_out = written, r_warnings = [], r_fatal = None\<rparr>"

definition run_throw :: "fatal \<Rightarrow> run" where
  "run_throw e = \<lparr>r_out = [], r_warnings = [], r_fatal = Some e\<rparr>"

definition run_then :: "run \<Rightarrow> run \<Rightarrow> run" where
  "run_then a b =
     (case r_fatal a of
        Some e \<Rightarrow> a
      | None \<Rightarrow>
          \<lparr>r_out = r_out a @ r_out b, r_warnings = r_warnings a @ r_warnings b,
           r_fatal = r_fatal b\<rparr>)"

text \<open>
  A via-shaped box of a special wire: the name of its via, the bottom layer of the via, its
  position (\<^verbatim>\<open>getViaXY\<close>), its three layer masks if it has them, and its shape type.
\<close>

record dbSViaBox =
  sv_via_name :: string
  sv_bottom_layer :: dbTechLayer
  sv_x :: int32
  sv_y :: int32
  sv_layer_masks :: "(nat \<times> nat \<times> nat) option"
  sv_shape_type :: dbWireShapeType

text \<open>
  The boxes of a special wire, as the loop of \<^verbatim>\<open>writeSWire\<close> tells them apart: a rectangle
  (\<^verbatim>\<open>!box->isVia()\<close>), a box with a technology via, a box with a block via, and a via box
  with neither, for which nothing is written.
\<close>

datatype sbox =
    SBOX_RECT dbSBox
  | SBOX_TECH_VIA dbSViaBox
  | SBOX_BLOCK_VIA dbSViaBox
  | SBOX_NO_VIA

text \<open>The two via branches have the same body.\<close>

definition special_via_text :: "defout_impl \<Rightarrow> dbSViaBox \<Rightarrow> string" where
  "special_via_text w v =
     (let ln = layer_out_name w (sv_bottom_layer v);
          vn = (case sv_layer_masks v of
                  None \<Rightarrow> sv_via_name v
                | Some (m_top, m_cut, m_bottom) \<Rightarrow>
                    ''MASK '' @ show_nat m_top @ show_nat m_cut @ show_nat m_bottom @ '' ''
                      @ sv_via_name v);
          xy = paren_xy (defdist_int w (sint (sv_x v))) (defdist_int w (sint (sv_y v)))
      in case sv_shape_type v of
           SHAPE_NONE \<Rightarrow> '' '' @ ln @ '' 0 '' @ xy @ '' '' @ vn
         | SHAPE_OTHER s \<Rightarrow> '' '' @ ln @ '' 0 + SHAPE '' @ s @ '' '' @ xy @ '' '' @ vn)"

definition write_sbox :: "defout_impl \<Rightarrow> sbox \<Rightarrow> run" where
  "write_sbox w b =
     (case b of
        SBOX_RECT box \<Rightarrow>
          (case writeSpecialPath w box of
             Inl e \<Rightarrow> run_throw e
           | Inr written \<Rightarrow> run_ok written)
      | SBOX_TECH_VIA v \<Rightarrow> run_ok [special_via_text w v]
      | SBOX_BLOCK_VIA v \<Rightarrow> run_ok [special_via_text w v]
      | SBOX_NO_VIA \<Rightarrow> run_ok [])"

text \<open>The loop over the boxes; \<^verbatim>\<open>if (i++ > 0)\<close> separates them by \<^verbatim>\<open>NEW\<close>.\<close>

fun writeSBoxes :: "defout_impl \<Rightarrow> sbox list \<Rightarrow> int \<Rightarrow> run" where
  "writeSBoxes w [] i = run_ok []"
| "writeSBoxes w (b # rest) i =
     run_then (run_ok (if 0 < i then [''\<newline>      NEW''] else []))
       (run_then (write_sbox w b) (writeSBoxes w rest (i + 1)))"

text \<open>A special wire: its type, the name of its shield net if it has one, and its boxes.\<close>

record dbSWire =
  sw_wire_type :: dbWireType
  sw_shield :: "string option"
  sw_wires :: "sbox list"

definition writeSWire :: "defout_impl \<Rightarrow> dbSWire \<Rightarrow> run" where
  "writeSWire w wire =
     run_then
       (case sw_wire_type wire of
          WT_COVER \<Rightarrow> run_ok [''\<newline>      + COVER'']
        | WT_FIXED \<Rightarrow> run_ok [''\<newline>      + FIXED'']
        | WT_ROUTED \<Rightarrow> run_ok [''\<newline>      + ROUTED'']
        | WT_SHIELD \<Rightarrow>
            (case sw_shield wire of
               Some n \<Rightarrow> run_ok [''\<newline>      + SHIELD '' @ n]
             | None \<Rightarrow>
                 \<lparr>r_out = [''\<newline>      + ROUTED''],
                  r_warnings = [''warning: missing shield net''],
                  r_fatal = None\<rparr>)
        | WT_NONE \<Rightarrow> run_ok [''\<newline>      + ROUTED'']
        | WT_NOSHIELD \<Rightarrow> run_ok [''\<newline>      + ROUTED''])
       (writeSBoxes w (sw_wires wire) 0)"

fun writeSWires :: "defout_impl \<Rightarrow> dbSWire list \<Rightarrow> run" where
  "writeSWires w [] = run_ok []"
| "writeSWires w (wire # rest) = run_then (writeSWire w wire) (writeSWires w rest)"

section \<open>Regular nets: writeNet\<close>

record dbNet =
  net_id :: nat
  net_name :: string
  net_special :: bool
  net_wild_connected :: bool
  net_bterm_names :: "string list"
  net_iterms :: "dbITerm list"
  net_xtalk :: int
  net_sig_type :: string
  net_non_default_rule :: "dbTechNonDefaultRule option"
  net_wire :: "decoded list option"
  net_wire_type :: dbWireType
  net_swires :: "dbSWire list"
  net_source :: dbSourceType
  net_fixed_bump :: bool
  net_weight :: int
  net_props :: "dbProperty list"

text \<open>The connection lists; \<open>i\<close> counts the terms written, for the line break every eighth.\<close>

fun write_net_bterms :: "string list \<Rightarrow> int \<Rightarrow> out \<times> int" where
  "write_net_bterms [] i = ([], i)"
| "write_net_bterms (pin_name # rest) i =
     (let i' = i + 1;
          r = write_net_bterms rest i'
      in ((if i' AND 7 = 0 then [''\<newline>     ''] else [])
          @ ['' ( PIN '' @ pin_name @ '' )''] @ fst r, snd r))"

fun write_net_iterms :: "defout_impl \<Rightarrow> selection \<Rightarrow> dbITerm list \<Rightarrow> int \<Rightarrow> out" where
  "write_net_iterms w sel [] i = []"
| "write_net_iterms w sel (iterm # rest) i =
     (if it_special iterm then write_net_iterms w sel rest i
      else if \<not> inst_selected sel (it_inst_id iterm) then write_net_iterms w sel rest i
      else
        (let i' = i + 1
         in (if i' AND 7 = 0 then [''\<newline>     ''] else [])
            @ [if use_net_inst_ids w
               then '' ( I'' @ show_nat (it_inst_id iterm) @ '' '' @ it_mterm_name iterm @ '' )''
               else '' ( '' @ it_inst_name iterm @ '' '' @ it_mterm_name iterm @ '' )'']
            @ write_net_iterms w sel rest i'))"

definition writeNet :: "defout_impl \<Rightarrow> prop_defs \<Rightarrow> selection \<Rightarrow> dbNet \<Rightarrow> out" where
  "writeNet w pd sel net =
     (let bt = write_net_bterms (net_bterm_names net) 0
      in [if use_net_inst_ids w then ''    - N'' @ show_nat (net_id net)
          else ''    - '' @ net_name net]
         @ fst bt
         @ write_net_iterms w sel (net_iterms net) (snd bt)
         @ (if net_xtalk net \<noteq> 0 then ['' + XTALK '' @ show_int (net_xtalk net)] else [])
         @ ['' + USE '' @ net_sig_type net]
         @ (case net_non_default_rule net of
              None \<Rightarrow> []
            | Some r \<Rightarrow> ['' + NONDEFAULTRULE '' @ ndr_name r])
         @ (case net_wire net of
              None \<Rightarrow> []
            | Some wire \<Rightarrow> writeWire w (net_non_default_rule net) (net_wire_type net) wire)
         @ (case net_source net of
              SRC_NONE \<Rightarrow> []
            | SRC_NETLIST \<Rightarrow> ['' + SOURCE NETLIST'']
            | SRC_DIST \<Rightarrow> ['' + SOURCE DIST'']
            | SRC_USER \<Rightarrow> ['' + SOURCE USER'']
            | SRC_TIMING \<Rightarrow> ['' + SOURCE TIMING'']
            | SRC_TEST \<Rightarrow> ['' + SOURCE TEST''])
         @ (if net_fixed_bump net then ['' + FIXEDBUMP''] else [])
         @ (if net_weight net \<noteq> 1 then ['' + WEIGHT '' @ show_int (net_weight net)] else [])
         @ property_clause pd NET '' + PROPERTY '' (net_props net)
         @ ['' ;\<newline>''])"

section \<open>Special nets and the net sections: writeSNet and writeNets\<close>

text \<open>The pin list of \<^verbatim>\<open>writeSNet\<close>; its line break has four blanks.\<close>

fun write_snet_bterms :: "string list \<Rightarrow> int \<Rightarrow> out \<times> int" where
  "write_snet_bterms [] i = ([], i)"
| "write_snet_bterms (pin_name # rest) i =
     (let i' = i + 1;
          r = write_snet_bterms rest i'
      in ((if i' AND 7 = 0 then [''\<newline>    ''] else [])
          @ ['' ( PIN '' @ pin_name @ '' )''] @ fst r, snd r))"

text \<open>
  The terminal list of \<^verbatim>\<open>writeSNet\<close>: only special terminals; on a wild-connected net each
  master-terminal name is written once, the names seen being kept in \<^verbatim>\<open>wild_names\<close>.
\<close>

fun write_snet_iterms ::
  "defout_impl \<Rightarrow> bool \<Rightarrow> dbITerm list \<Rightarrow> int \<Rightarrow> string list \<Rightarrow> out" where
  "write_snet_iterms w wild [] i wild_names = []"
| "write_snet_iterms w wild (iterm # rest) i wild_names =
     (if \<not> it_special iterm then write_snet_iterms w wild rest i wild_names
      else if wild then
        (if it_mterm_name iterm \<in> set wild_names
         then write_snet_iterms w wild rest i wild_names
         else ['' ( * '' @ it_mterm_name iterm @ '' )'']
              @ write_snet_iterms w wild rest (i + 1) (it_mterm_name iterm # wild_names))
      else
        (let i' = i + 1;
             iname = (if use_net_inst_ids w then ''I'' @ show_nat (it_inst_id iterm)
                      else it_inst_name iterm)
         in [(if i' AND 7 = 0 then ''\<newline>      ( '' else '' ( '')
               @ iname @ '' '' @ it_mterm_name iterm @ '' )'']
            @ write_snet_iterms w wild rest i' wild_names))"

definition writeSNet :: "defout_impl \<Rightarrow> prop_defs \<Rightarrow> dbNet \<Rightarrow> run" where
  "writeSNet w pd net =
     (let bt = write_snet_bterms (net_bterm_names net) 0
      in run_then
           (run_ok
              ([if use_net_inst_ids w then ''    - N'' @ show_nat (net_id net)
                else ''    - '' @ net_name net]
               @ fst bt
               @ write_snet_iterms w (net_wild_connected net) (net_iterms net) (snd bt) []
               @ ['' + USE '' @ net_sig_type net]))
           (run_then (writeSWires w (net_swires net))
              (run_ok
                 ((case net_source net of
                     SRC_NONE \<Rightarrow> []
                   | SRC_NETLIST \<Rightarrow> ['' + SOURCE NETLIST'']
                   | SRC_DIST \<Rightarrow> ['' + SOURCE DIST'']
                   | SRC_USER \<Rightarrow> ['' + SOURCE USER'']
                   | SRC_TIMING \<Rightarrow> ['' + SOURCE TIMING'']
                   | SRC_TEST \<Rightarrow> [])
                  @ (if net_fixed_bump net then ['' + FIXEDBUMP''] else [])
                  @ (if net_weight net \<noteq> 1 then ['' + WEIGHT '' @ show_int (net_weight net)]
                     else [])
                  @ property_clause pd SPECIALNET '' + PROPERTY '' (net_props net)
                  @ ['' ;\<newline>'']))))"

fun writeSNets :: "defout_impl \<Rightarrow> prop_defs \<Rightarrow> dbNet list \<Rightarrow> run" where
  "writeSNets w pd [] = run_ok []"
| "writeSNets w pd (net # rest) = run_then (writeSNet w pd net) (writeSNets w pd rest)"

text \<open>
  \<^verbatim>\<open>writeNets\<close>. The nets are visited in name order, the unselected ones skipped. The first
  loop counts the special nets (\<^verbatim>\<open>snet_cnt\<close>) and marks and counts the nets that go to the
  regular section (\<^verbatim>\<open>regular_net[net] = 1\<close>, \<^verbatim>\<open>net_cnt\<close>): a net that is not special, or a
  special net with a terminal that is not special.
\<close>

definition nets_visited :: "selection \<Rightarrow> dbNet list \<Rightarrow> dbNet list" where
  "nets_visited sel nets = filter (\<lambda>n. net_selected sel (net_id n)) (sortedSet net_name nets)"

definition regular_part :: "dbNet \<Rightarrow> bool" where
  "regular_part net =
     (if net_special net then list_ex (\<lambda>t. \<not> it_special t) (net_iterms net) else True)"

definition writeNets :: "defout_impl \<Rightarrow> prop_defs \<Rightarrow> selection \<Rightarrow> dbNet list \<Rightarrow> run" where
  "writeNets w pd sel nets =
     (let visited = nets_visited sel nets;
          snets = filter net_special visited;
          rnets = filter regular_part visited
      in run_then
           (if 0 < length snets then
              run_then (run_ok [''SPECIALNETS '' @ show_nat (length snets) @ '' ;\<newline>''])
                (run_then (writeSNets w pd snets) (run_ok [''END SPECIALNETS\<newline>'']))
            else run_ok [])
           (run_ok
              ([''NETS '' @ show_nat (length rnets) @ '' ;\<newline>'']
               @ concat (map (writeNet w pd sel) rnets)
               @ [''END NETS\<newline>''])))"

section \<open>Orchestrator: writeBlock and writeBlock_Pl\<close>

record dbBlock =
  blk_name :: string
  blk_hier_delim :: char
  blk_left_bus :: char
  blk_right_bus :: char
  blk_def_units :: int
  blk_prop_definitions :: "(string \<times> dbPropertyDef list) list option"
  blk_insts :: "dbInst list"
  blk_bterms :: "dbBTerm list"
  blk_nets :: "dbNet list"

text \<open>
  What the section writers that are not modelled here write for the block, in the order
  \<^verbatim>\<open>writeBlock\<close> calls them: the die area; rows, tracks, gcell grid, vias, non-default rules
  and regions; the component mask shift; pin properties, blockages and fills; groups and
  scan chains. They are parameters of the orchestrator. None of them throws.
\<close>

record section_outputs =
  so_die_area :: out
  so_rows_to_regions :: out
  so_component_mask_shift :: out
  so_pin_properties_to_fills :: out
  so_groups_to_scan_chains :: out

text \<open>The \<^verbatim>\<open>if / else if\<close> chain that prints the version statement.\<close>

fun version_statement :: "Version \<Rightarrow> string" where
  "version_statement DEF_5_3 = ''VERSION 5.3 ;\<newline>''"
| "version_statement DEF_5_4 = ''VERSION 5.4 ;\<newline>''"
| "version_statement DEF_5_5 = ''VERSION 5.5 ;\<newline>''"
| "version_statement DEF_5_6 = ''VERSION 5.6 ;\<newline>''"
| "version_statement DEF_5_7 = ''VERSION 5.7 ;\<newline>''"
| "version_statement DEF_5_8 = ''VERSION 5.8 ;\<newline>''"

definition write_header :: "defout_impl \<Rightarrow> dbBlock \<Rightarrow> out" where
  "write_header w block =
     (let hd = (if blk_hier_delim block = CHR 0x00 then CHR ''|'' else blk_hier_delim block);
          no_bus = (blk_left_bus block = CHR 0x00 \<or> blk_right_bus block = CHR 0x00);
          left_bus = (if no_bus then CHR ''['' else blk_left_bus block);
          right_bus = (if no_bus then CHR '']'' else blk_right_bus block)
      in [version_statement (version w)]
         @ (if ver_lt (version w) DEF_5_6 then [''NAMESCASESENSITIVE ON ;\<newline>''] else [])
         @ [''DIVIDERCHAR '' @ [CHR 0x22, hd, CHR 0x22] @ '' ;\<newline>'']
         @ [''BUSBITCHARS '' @ [CHR 0x22, left_bus, right_bus, CHR 0x22] @ '' ;\<newline>'']
         @ [''DESIGN '' @ blk_name block @ '' ;\<newline>'']
         @ [''UNITS DISTANCE MICRONS '' @ show_int (blk_def_units block) @ '' ;\<newline>''])"

text \<open>
  How a pass ends: it returns its boolean result, or a fatal error raised by a section
  writer ends it (a \<^verbatim>\<open>ZException\<close> that no caller inside the writer catches, or the abort
  of a failed \<^verbatim>\<open>assert\<close>), or it hands the null stream to the C library
  (\<^verbatim>\<open>fileno(_out)\<close> with \<^verbatim>\<open>_out == nullptr\<close>), which is undefined behaviour.
\<close>

datatype outcome = Returned bool | Threw fatal | NullStreamUsed

text \<open>
  The result of a pass: how it ended, the warnings it logged, and what it wrote to the
  destination stream (\<open>None\<close> when nothing was written to any stream).
\<close>

record pass_result =
  pr_outcome :: outcome
  pr_warnings :: "string list"
  pr_written :: "out option"

text \<open>
  What \<^verbatim>\<open>writeBlock\<close> has written when it calls \<^verbatim>\<open>writeNets\<close>, with the registry \<open>pd'\<close>
  that the property-definitions pass has left.
\<close>

definition sections_before_nets ::
  "defout_impl \<Rightarrow> prop_defs \<Rightarrow> selection \<Rightarrow> section_outputs \<Rightarrow> dbBlock \<Rightarrow> out" where
  "sections_before_nets w pd sel others block =
     (let pdr = writePropertyDefinitions (blk_prop_definitions block) pd
      in write_header w block
         @ fst pdr
         @ so_die_area others
         @ so_rows_to_regions others
         @ (if version w = DEF_5_8 then so_component_mask_shift others else [])
         @ writeInsts w (snd pdr) sel (blk_insts block)
         @ fst (writeBTerms w sel (blk_bterms block))
         @ so_pin_properties_to_fills others)"

text \<open>
  \<^verbatim>\<open>writeBlock\<close>. \<open>opened\<close> tells whether \<^verbatim>\<open>fileHandler.getFile()\<close> is a stream
  (\<^verbatim>\<open>_out != nullptr\<close>). The selection maps are built before the destination is opened. When
  \<^verbatim>\<open>writeNets\<close> throws, the pass ends there: what was written so far stays written, and
  neither the later sections nor \<^verbatim>\<open>END DESIGN\<close> follow.
\<close>

definition writeBlock ::
  "defout_impl \<Rightarrow> prop_defs \<Rightarrow> selection \<Rightarrow> dbNetSel list \<Rightarrow> nat list \<Rightarrow>
   section_outputs \<Rightarrow> dbBlock \<Rightarrow> string \<Rightarrow> bool \<Rightarrow> pass_result" where
  "writeBlock w pd sel0 select_net_list select_inst_list others block def_file opened =
     (let sel = build_selection select_net_list select_inst_list sel0
      in if \<not> opened then
           \<lparr>pr_outcome = Returned False,
            pr_warnings = [''Cannot open DEF file ('' @ def_file @ '') for writing''],
            pr_written = None\<rparr>
         else
           (let pd' = snd (writePropertyDefinitions (blk_prop_definitions block) pd);
                pin_warnings = snd (writeBTerms w sel (blk_bterms block));
                nets = writeNets w pd' sel (blk_nets block);
                written = sections_before_nets w pd sel others block @ r_out nets
            in case r_fatal nets of
                 Some e \<Rightarrow>
                   \<lparr>pr_outcome = Threw e,
                    pr_warnings = pin_warnings @ r_warnings nets,
                    pr_written = Some written\<rparr>
               | None \<Rightarrow>
                   \<lparr>pr_outcome = Returned True,
                    pr_warnings = pin_warnings @ r_warnings nets,
                    pr_written = Some
                      (written @ so_groups_to_scan_chains others @ [''END DESIGN\<newline>''])\<rparr>))"

text \<open>
  \<^verbatim>\<open>writeBlock_Pl\<close>. After \<^verbatim>\<open>_out = fileHandler.getFile();\<close> there is no test of \<^verbatim>\<open>_out\<close>:
  the next statement is \<^verbatim>\<open>fstat(fileno(_out), &stats)\<close>.
\<close>

definition writeBlock_Pl ::
  "defout_impl \<Rightarrow> selection \<Rightarrow> dbNetSel list \<Rightarrow> nat list \<Rightarrow>
   dbBlock \<Rightarrow> string \<Rightarrow> bool \<Rightarrow> pass_result" where
  "writeBlock_Pl w sel0 select_net_list select_inst_list block def_file opened =
     (let sel = build_selection select_net_list select_inst_list sel0
      in if \<not> opened then
           \<lparr>pr_outcome = NullStreamUsed, pr_warnings = [], pr_written = None\<rparr>
         else
           \<lparr>pr_outcome = Returned True,
            pr_warnings = [],
            pr_written = Some
              (writeBTerms_Pl w sel (blk_bterms block)
               @ [''CELLS\<newline>'']
               @ writeInsts_Pl w sel (blk_insts block))\<rparr>)"

section \<open>Notions the specification uses\<close>

text \<open>
  The two axis spans of a special-net rectangle (\<^verbatim>\<open>uint dx = x2 - x1; uint dy = y2 - y1;\<close>) and
  the rectangle with one axis collapsed to its midpoint, the span of that axis being the
  width.
\<close>

definition sbox_dx :: "dbSBox \<Rightarrow> uint32" where
  "sbox_dx box = sb_xMax box - sb_xMin box"

definition sbox_dy :: "dbSBox \<Rightarrow> uint32" where
  "sbox_dy box = sb_yMax box - sb_yMin box"

definition x_collapsed :: "dbSBox \<Rightarrow> centerline" where
  "x_collapsed box =
     \<lparr>cl_w = sbox_dx box,
      cl_x1 = sb_xMin box + drop_bit 1 (sbox_dx box), cl_y1 = sb_yMin box,
      cl_x2 = sb_xMin box + drop_bit 1 (sbox_dx box), cl_y2 = sb_yMax box\<rparr>"

definition y_collapsed :: "dbSBox \<Rightarrow> centerline" where
  "y_collapsed box =
     \<lparr>cl_w = sbox_dy box,
      cl_x1 = sb_xMin box, cl_y1 = sb_yMin box + drop_bit 1 (sbox_dy box),
      cl_x2 = sb_xMax box, cl_y2 = sb_yMin box + drop_bit 1 (sbox_dy box)\<rparr>"

definition odd_both_message :: string where
  "odd_both_message = ''odd dimension in both directions''"

text \<open>
  The special-net boxes a pass writes, in writing order: the boxes of the special wires of
  the selected special nets, the nets in name order. The fatal error a box raises when it is
  written, and the first one of a list.
\<close>

definition special_boxes :: "selection \<Rightarrow> dbNet list \<Rightarrow> sbox list" where
  "special_boxes sel nets =
     concat (map (\<lambda>net. concat (map sw_wires (net_swires net)))
               (filter net_special (nets_visited sel nets)))"

definition sbox_fatal :: "sbox \<Rightarrow> fatal option" where
  "sbox_fatal b =
     (case b of
        SBOX_RECT box \<Rightarrow>
          (case special_path_centerline box of Inl e \<Rightarrow> Some e | Inr c \<Rightarrow> None)
      | SBOX_TECH_VIA v \<Rightarrow> None
      | SBOX_BLOCK_VIA v \<Rightarrow> None
      | SBOX_NO_VIA \<Rightarrow> None)"

fun first_fatal :: "fatal option list \<Rightarrow> fatal option" where
  "first_fatal [] = None"
| "first_fatal (Some e # rest) = Some e"
| "first_fatal (None # rest) = first_fatal rest"

text \<open>
  The property names registered for a category by the property-definitions pass over the
  reserved container: the names under every category node of that category.
\<close>

fun registered_names :: "(string \<times> dbPropertyDef list) list \<Rightarrow> ObjType \<Rightarrow> string list" where
  "registered_names [] t = []"
| "registered_names ((objType, props) # rest) t =
     (if obj_type_of objType = Some t then map d_name props else []) @ registered_names rest t"

definition registered ::
  "(string \<times> dbPropertyDef list) list option \<Rightarrow> ObjType \<Rightarrow> string \<Rightarrow> bool" where
  "registered defs t name =
     (case defs of None \<Rightarrow> False | Some obj_types \<Rightarrow> name \<in> set (registered_names obj_types t))"

text \<open>What \<^verbatim>\<open>writeProperties\<close> writes for one property: its name, then its value.\<close>

definition property_text :: "dbProperty \<Rightarrow> out" where
  "property_text p = (p_name p @ '' '') # writePropValue (p_val p)"

text \<open>
  A selected net whose instances the selection builder walks: neither special nor
  mark-1ed; and the instances that have a terminal on such a net of the selection list.
\<close>

definition regular_net :: "dbNetSel \<Rightarrow> bool" where
  "regular_net net = (\<not> ns_special net \<and> \<not> ns_mark_1ed net)"

fun connected_insts :: "dbNetSel list \<Rightarrow> nat list" where
  "connected_insts [] = []"
| "connected_insts (net # rest) =
     (if regular_net net then map it_inst_id (ns_iterms net) else []) @ connected_insts rest"

text \<open>The events that start a path, and the three forms of an ordinary point token.\<close>

fun is_path_start :: "OpCode \<Rightarrow> bool" where
  "is_path_start (PATH l t) = True"
| "is_path_start (SHORT l t) = True"
| "is_path_start (VWIRE l t) = True"
| "is_path_start (JUNCTION l t) = True"
| "is_path_start x = False"

definition full_point :: "int \<Rightarrow> int \<Rightarrow> string" where
  "full_point x y = '' ( '' @ show_int x @ '' '' @ show_int y @ '' )''"

definition star_x_point :: "int \<Rightarrow> string" where
  "star_x_point y = '' ( * '' @ show_int y @ '' )''"

definition star_y_point :: "int \<Rightarrow> string" where
  "star_y_point x = '' ( '' @ show_int x @ '' * )''"

section \<open>Concrete designs\<close>

text \<open>
  Small database objects on which the writer is run below. The unit conversion is the
  identity (output units equal to database units per micron), and wire types print under
  their enumerator names.
\<close>

fun ex_wire_type_str :: "dbWireType \<Rightarrow> string" where
  "ex_wire_type_str WT_NONE = ''NONE''"
| "ex_wire_type_str WT_COVER = ''COVER''"
| "ex_wire_type_str WT_FIXED = ''FIXED''"
| "ex_wire_type_str WT_ROUTED = ''ROUTED''"
| "ex_wire_type_str WT_SHIELD = ''SHIELD''"
| "ex_wire_type_str WT_NOSHIELD = ''NOSHIELD''"

definition ex_writer :: "Version \<Rightarrow> defout_impl" where
  "ex_writer v = \<lparr>version = v, use_alias = False, use_net_inst_ids = False,
     use_master_ids = False, defdist = (\<lambda>d. d), wire_type_str = ex_wire_type_str\<rparr>"

definition ex_layer :: dbTechLayer where
  "ex_layer = \<lparr>layer_name = ''M1'', layer_alias = None\<rparr>"

definition ex_inst :: "string \<Rightarrow> nat \<Rightarrow> dbInst" where
  "ex_inst name n = \<lparr>inst_id = n, inst_name = name, inst_master_name = ''BUF'',
     inst_master_id = 1, inst_source = SRC_NONE, inst_x = 0, inst_y = 0, inst_orient = R0,
     inst_status = PLACED, inst_weight = 0, inst_region = None, inst_props = [],
     inst_halo = None\<rparr>"

definition ex_iterm :: "string \<Rightarrow> nat \<Rightarrow> dbITerm" where
  "ex_iterm name n = \<lparr>it_inst_id = n, it_inst_name = name, it_mterm_name = ''A'',
     it_special = False\<rparr>"

definition ex_net_sel :: "nat \<Rightarrow> dbITerm list \<Rightarrow> dbNetSel" where
  "ex_net_sel n its = \<lparr>ns_id = n, ns_special = False, ns_mark_1ed = False, ns_iterms = its\<rparr>"

definition ex_bterm :: "string \<Rightarrow> dbNetRef option \<Rightarrow> dbBTerm" where
  "ex_bterm name net = \<lparr>bt_name = name, bt_net = net, bt_bpins = [], bt_special = False,
     bt_io_type = ''INPUT'', bt_sig_type = ''SIGNAL'', bt_supply_pin = None,
     bt_ground_pin = None, bt_props = []\<rparr>"

definition ex_prop :: "string \<Rightarrow> int \<Rightarrow> dbProperty" where
  "ex_prop name v = \<lparr>p_name = name, p_val = IntVal v\<rparr>"

definition ex_prop_def :: "string \<Rightarrow> dbPropertyDef" where
  "ex_prop_def name =
     \<lparr>d_name = name, d_val = IntVal 0, d_min = None, d_max = None, d_value = None\<rparr>"

definition ex_event :: "OpCode \<Rightarrow> decoded" where
  "ex_event oc = \<lparr>opcode = oc, color = None, viacolor = None\<rparr>"

definition ex_rule :: "nat \<Rightarrow> string \<Rightarrow> dbTechNonDefaultRule" where
  "ex_rule n name = \<lparr>ndr_id = n, ndr_name = name\<rparr>"

definition ex_sbox :: "int32 \<Rightarrow> int32 \<Rightarrow> int32 \<Rightarrow> int32 \<Rightarrow> dbSBox" where
  "ex_sbox x1 y1 x2 y2 =
     \<lparr>sb_layer = ex_layer, sb_xMin = x1, sb_yMin = y1, sb_xMax = x2, sb_yMax = y2,
      sb_direction = UNDEFINED,
      sb_oct = \<lparr>oct_center_low = (0, 0), oct_center_high = (0, 0), oct_width = 0\<rparr>,
      sb_layer_mask = 0, sb_shape_type = SHAPE_NONE\<rparr>"

definition ex_swire :: "sbox list \<Rightarrow> dbSWire" where
  "ex_swire boxes = \<lparr>sw_wire_type = WT_ROUTED, sw_shield = None, sw_wires = boxes\<rparr>"

definition ex_snet :: "string \<Rightarrow> sbox list \<Rightarrow> dbNet" where
  "ex_snet name boxes =
     \<lparr>net_id = 1, net_name = name, net_special = True, net_wild_connected = False,
      net_bterm_names = [], net_iterms = [], net_xtalk = 0, net_sig_type = ''POWER'',
      net_non_default_rule = None, net_wire = None, net_wire_type = WT_NONE,
      net_swires = [ex_swire boxes], net_source = SRC_NONE, net_fixed_bump = False,
      net_weight = 1, net_props = []\<rparr>"

definition ex_block :: "dbNet list \<Rightarrow> dbBlock" where
  "ex_block nets =
     \<lparr>blk_name = ''top'', blk_hier_delim = CHR ''/'', blk_left_bus = CHR ''['',
      blk_right_bus = CHR '']'', blk_def_units = 1000, blk_prop_definitions = None,
      blk_insts = [], blk_bterms = [], blk_nets = nets\<rparr>"

definition ex_others :: section_outputs where
  "ex_others =
     \<lparr>so_die_area = [], so_rows_to_regions = [], so_component_mask_shift = [],
      so_pin_properties_to_fills = [], so_groups_to_scan_chains = []\<rparr>"

text \<open>The decoder state after a path start and one point at the origin.\<close>

definition ex_state :: wire_state where
  "ex_state =
     \<lparr>prev_wire_type = WT_ROUTED, point_cnt = 1, path_cnt = 1, prev_x = 0, prev_y = 0\<rparr>"

section \<open>Auxiliary facts\<close>

lemmas ver_defs = ver_lt_def ver_le_def ver_gt_def ver_ge_def

lemmas ex_defs = ex_writer_def ex_layer_def ex_inst_def ex_iterm_def ex_net_sel_def
  ex_bterm_def ex_prop_def ex_prop_def_def ex_event_def ex_rule_def ex_sbox_def ex_state_def
  ex_swire_def ex_snet_def ex_block_def ex_others_def

lemmas show_defs = show_int_def show_nat.simps digit_char_def

subsection \<open>Version numbers\<close>

lemma version_statement_number:
  "version_statement v
     = ''VERSION '' @ show_nat (fst (def_number v)) @ ''.'' @ show_nat (snd (def_number v))
         @ '' ;\<newline>''"
  by (cases v) (simp_all add: show_defs)

lemma version_tests:
  "ver_lt v DEF_5_6 = (6 < snd (def_number v))"
  "ver_ge v DEF_5_6 = (snd (def_number v) \<le> 6)"
  "ver_ge v DEF_5_8 = True"
  by (cases v; simp add: ver_defs)+

subsection \<open>32-bit spans\<close>

lemma and_one_even: "((d::32 word) AND 1 = 0) = even (unat d)"
proof -
  have "even d = even (unat d)"
    by (metis even_of_nat mult.right_neutral unsigned_1 word_arith_nat_mult)
  then show ?thesis by (metis even_word_def even_word_iff)
qed

lemma half_twice:
  assumes "even (unat (d::32 word))"
  shows "drop_bit 1 d + drop_bit 1 d = d"
proof -
  have h: "unat (drop_bit 1 d) = unat d div 2"
    by (simp add: drop_bit_eq_div unat_div)
  have lt: "unat d < 2 ^ 32"
    using unsigned_less[of d] by simp
  have "unat (drop_bit 1 d + drop_bit 1 d) = (unat d div 2 + unat d div 2) mod 2 ^ 32"
    unfolding unat_word_ariths h by simp
  also have "unat d div 2 + unat d div 2 = unat d"
    using assms by presburger
  also have "unat d mod 2 ^ 32 = unat d"
    using lt by simp
  finally show ?thesis by (simp add: word_unat_eq_iff)
qed

lemma collapse_x_even:
  assumes e: "even (unat (x2 - x1 :: 32 word))"
  shows "collapse_x x1 y1 x2 y2 (x2 - x1) =
     Inr \<lparr>cl_w = x2 - x1, cl_x1 = x1 + drop_bit 1 (x2 - x1), cl_y1 = y1,
          cl_x2 = x1 + drop_bit 1 (x2 - x1), cl_y2 = y2\<rparr>"
proof -
  have "x1 + drop_bit 1 (x2 - x1) + drop_bit 1 (x2 - x1) = x2"
    using half_twice[OF e] by (simp add: add.assoc)
  then have "x2 - drop_bit 1 (x2 - x1) = x1 + drop_bit 1 (x2 - x1)"
    by (simp add: algebra_simps)
  then show ?thesis by (simp add: collapse_x_def Let_def)
qed

lemma collapse_y_even:
  assumes e: "even (unat (y2 - y1 :: 32 word))"
  shows "collapse_y x1 y1 x2 y2 (y2 - y1) =
     Inr \<lparr>cl_w = y2 - y1, cl_x1 = x1, cl_y1 = y1 + drop_bit 1 (y2 - y1),
          cl_x2 = x2, cl_y2 = y1 + drop_bit 1 (y2 - y1)\<rparr>"
proof -
  have "y1 + drop_bit 1 (y2 - y1) + drop_bit 1 (y2 - y1) = y2"
    using half_twice[OF e] by (simp add: add.assoc)
  then have "y2 - drop_bit 1 (y2 - y1) = y1 + drop_bit 1 (y2 - y1)"
    by (simp add: algebra_simps)
  then show ?thesis by (simp add: collapse_y_def Let_def)
qed

text \<open>
  On a rectangle whose corners are ordered, the unsigned span is the integer difference of
  the signed coordinates, and the collapsed coordinate is the integer midpoint.
\<close>

lemma uint_diff_mod: "uint ((b::32 word) - a) = (sint b - sint a) mod 2 ^ 32"
proof -
  have "b - a = word_of_int (sint b - sint a)" by simp
  then have "uint (b - a) = uint (word_of_int (sint b - sint a) :: 32 word)" by (rule arg_cong)
  also have "\<dots> = (sint b - sint a) mod 2 ^ 32" unfolding uint_word_of_int by simp
  finally show ?thesis .
qed

lemma sint_bounds32: "- (2 ^ 31) \<le> sint (a::32 word) \<and> sint a < 2 ^ 31"
  using sint_range_size[of a] by (simp add: word_size)

lemma span_exact:
  assumes "sint (a::32 word) \<le> sint (b::32 word)"
  shows "uint (b - a) = sint b - sint a"
proof -
  have "0 \<le> sint b - sint a" "sint b - sint a < 2 ^ 32"
    using assms sint_bounds32[of a] sint_bounds32[of b] by auto
  then show ?thesis unfolding uint_diff_mod by simp
qed

lemma midpoint_exact:
  assumes le: "sint (a::32 word) \<le> sint (b::32 word)"
  shows "sint (a + drop_bit 1 (b - a)) = sint a + (sint b - sint a) div 2"
proof -
  let ?h = "(sint b - sint a) div 2"
  have u: "uint (drop_bit 1 (b - a)) = ?h"
    by (simp add: drop_bit_eq_div uint_div span_exact[OF le])
  have "a + drop_bit 1 (b - a) = word_of_int (sint a + uint (drop_bit 1 (b - a)))"
    by simp
  then have "sint (a + drop_bit 1 (b - a)) = sint (word_of_int (sint a + ?h) :: 32 word)"
    unfolding u by (rule arg_cong)
  also have "\<dots> = (sint a + ?h + 2 ^ 31) mod 2 ^ 32 - 2 ^ 31"
    unfolding int_word_sint by simp
  also have "\<dots> = sint a + ?h"
  proof -
    have "0 \<le> sint a + ?h + 2 ^ 31" "sint a + ?h + 2 ^ 31 < 2 ^ 32"
      using le sint_bounds32[of a] sint_bounds32[of b] by auto
    then show ?thesis by simp
  qed
  finally show ?thesis .
qed

lemma undefined_centerline:
  assumes "sb_direction box = UNDEFINED"
  shows "special_path_centerline box =
           (if even (unat (sbox_dx box)) \<and> even (unat (sbox_dy box)) then
              (if sbox_dy box < sbox_dx box then Inr (y_collapsed box) else Inr (x_collapsed box))
            else if even (unat (sbox_dx box)) then Inr (x_collapsed box)
            else if even (unat (sbox_dy box)) then Inr (y_collapsed box)
            else Inl (ZException odd_both_message))"
  using assms
  by (simp add: special_path_centerline_def Let_def and_one_even collapse_x_even collapse_y_even
        sbox_dx_def sbox_dy_def x_collapsed_def y_collapsed_def odd_both_message_def)

subsection \<open>Fatal errors of special-net boxes\<close>

lemma r_fatal_run_ok: "r_fatal (run_ok written) = None"
  by (simp add: run_ok_def)

lemma r_fatal_run_throw: "r_fatal (run_throw e) = Some e"
  by (simp add: run_throw_def)

lemma r_fatal_run_then:
  "r_fatal (run_then a b) = (case r_fatal a of Some e \<Rightarrow> Some e | None \<Rightarrow> r_fatal b)"
  by (simp add: run_then_def split: option.splits)

lemma first_fatal_append:
  "first_fatal (xs @ ys) = (case first_fatal xs of Some e \<Rightarrow> Some e | None \<Rightarrow> first_fatal ys)"
  by (induction xs rule: first_fatal.induct) simp_all

lemma first_fatal_member:
  "Some e \<in> set xs \<Longrightarrow> \<exists>e'. first_fatal xs = Some e'"
  by (induction xs rule: first_fatal.induct) auto

lemma write_sbox_fatal: "r_fatal (write_sbox w b) = sbox_fatal b"
  by (cases b)
     (simp_all add: write_sbox_def sbox_fatal_def writeSpecialPath_def r_fatal_run_ok
        r_fatal_run_throw split: sum.splits)

lemma writeSBoxes_fatal:
  "r_fatal (writeSBoxes w boxes i) = first_fatal (map sbox_fatal boxes)"
proof (induction boxes arbitrary: i)
  case Nil
  then show ?case by (simp add: r_fatal_run_ok)
next
  case (Cons b rest)
  then show ?case
    by (cases "sbox_fatal b") (simp_all add: r_fatal_run_then r_fatal_run_ok write_sbox_fatal)
qed

lemma writeSWire_fatal:
  "r_fatal (writeSWire w wire) = first_fatal (map sbox_fatal (sw_wires wire))"
proof -
  have "r_fatal (case sw_wire_type wire of
          WT_COVER \<Rightarrow> run_ok [''\<newline>      + COVER'']
        | WT_FIXED \<Rightarrow> run_ok [''\<newline>      + FIXED'']
        | WT_ROUTED \<Rightarrow> run_ok [''\<newline>      + ROUTED'']
        | WT_SHIELD \<Rightarrow>
            (case sw_shield wire of
               Some n \<Rightarrow> run_ok [''\<newline>      + SHIELD '' @ n]
             | None \<Rightarrow>
                 \<lparr>r_out = [''\<newline>      + ROUTED''],
                  r_warnings = [''warning: missing shield net''],
                  r_fatal = None\<rparr>)
        | WT_NONE \<Rightarrow> run_ok [''\<newline>      + ROUTED'']
        | WT_NOSHIELD \<Rightarrow> run_ok [''\<newline>      + ROUTED'']) = None"
    by (simp add: r_fatal_run_ok split: dbWireType.splits option.splits)
  then show ?thesis
    by (simp add: writeSWire_def r_fatal_run_then writeSBoxes_fatal)
qed

lemma writeSWires_fatal:
  "r_fatal (writeSWires w wires) = first_fatal (map sbox_fatal (concat (map sw_wires wires)))"
  by (induction wires)
     (simp_all add: r_fatal_run_ok r_fatal_run_then writeSWire_fatal first_fatal_append
        split: option.splits)

lemma writeSNet_fatal:
  "r_fatal (writeSNet w pd net)
     = first_fatal (map sbox_fatal (concat (map sw_wires (net_swires net))))"
  by (simp add: writeSNet_def Let_def r_fatal_run_then r_fatal_run_ok writeSWires_fatal
        split: option.splits)

lemma writeSNets_fatal:
  "r_fatal (writeSNets w pd nets)
     = first_fatal (map sbox_fatal
         (concat (map (\<lambda>net. concat (map sw_wires (net_swires net))) nets)))"
  by (induction nets)
     (simp_all add: r_fatal_run_ok r_fatal_run_then writeSNet_fatal first_fatal_append
        split: option.splits)

lemma writeNets_fatal:
  "r_fatal (writeNets w pd sel nets) = first_fatal (map sbox_fatal (special_boxes sel nets))"
  by (simp add: writeNets_def Let_def r_fatal_run_then r_fatal_run_ok writeSNets_fatal
        special_boxes_def split: option.splits)

text \<open>
  A pass on an opened destination returns true exactly when no special-net box it writes
  raises a fatal error; otherwise it ends in the first such error, with what was written up
  to there.
\<close>

lemma writeBlock_outcome:
  "pr_outcome (writeBlock w pd sel0 snl sil others block def_file True)
     = (case first_fatal (map sbox_fatal
               (special_boxes (build_selection snl sil sel0) (blk_nets block))) of
          None \<Rightarrow> Returned True
        | Some e \<Rightarrow> Threw e)"
  by (simp add: writeBlock_def Let_def writeNets_fatal split: option.splits)

lemma writeBlock_threw:
  assumes "pr_outcome (writeBlock w pd sel0 snl sil others block def_file True) = Threw e"
  shows "pr_written (writeBlock w pd sel0 snl sil others block def_file True)
           = Some (sections_before_nets w pd (build_selection snl sil sel0) others block
                   @ r_out (writeNets w
                              (snd (writePropertyDefinitions (blk_prop_definitions block) pd))
                              (build_selection snl sil sel0) (blk_nets block)))"
  using assms by (simp add: writeBlock_def Let_def split: option.splits)

lemma special_path_text_form:
  "special_path_text w box c
     = '' '' @ layer_out_name w (sb_layer box) @ '' ''
       @ show_int (defdist_int w (uint (cl_w c)))
       @ (if sb_layer_mask box \<noteq> 0 then
            (case sb_shape_type box of
               SHAPE_NONE \<Rightarrow>
                 '' '' @ paren_xy (defdist_int w (sint (cl_x1 c))) (defdist_int w (sint (cl_y1 c)))
                 @ '' MASK '' @ show_int (sint (sb_layer_mask box)) @ '' ''
                 @ paren_xy (defdist_int w (sint (cl_x2 c))) (defdist_int w (sint (cl_y2 c)))
             | SHAPE_OTHER s \<Rightarrow>
                 '' + SHAPE '' @ s @ '' + MASK '' @ show_int (sint (sb_layer_mask box)) @ '' + ''
                 @ paren_xy (defdist_int w (sint (cl_x1 c))) (defdist_int w (sint (cl_y1 c)))
                 @ '' ''
                 @ paren_xy (defdist_int w (sint (cl_x2 c))) (defdist_int w (sint (cl_y2 c))))
          else
            (case sb_shape_type box of
               SHAPE_NONE \<Rightarrow>
                 '' '' @ paren_xy (defdist_int w (sint (cl_x1 c))) (defdist_int w (sint (cl_y1 c)))
                 @ '' ''
                 @ paren_xy (defdist_int w (sint (cl_x2 c))) (defdist_int w (sint (cl_y2 c)))
             | SHAPE_OTHER s \<Rightarrow>
                 '' + SHAPE '' @ s @ '' ''
                 @ paren_xy (defdist_int w (sint (cl_x1 c))) (defdist_int w (sint (cl_y1 c)))
                 @ '' ''
                 @ paren_xy (defdist_int w (sint (cl_x2 c))) (defdist_int w (sint (cl_y2 c)))))"
  by (simp add: special_path_text_def Let_def split: dbWireShapeType.splits)

lemmas special_eval_defs = writeSpecialPath_def special_path_centerline_def collapse_x_def
  collapse_y_def special_path_text_def defdist_int_def layer_out_name_def paren_xy_def Let_def

subsection \<open>Property registry\<close>

lemma hasProperties_iff:
  "hasProperties pd props t = (\<exists>p\<in>set props. pd t (p_name p) \<noteq> None)"
  by (induction props) auto

lemma writeProperties_all:
  "writeProperties props = concat (map property_text props)"
  unfolding writeProperties_def
  by (induction props) (simp_all add: property_text_def)

lemma register_props_dom:
  "dom (snd (register_props objType ds m)) = dom m \<union> d_name ` set ds"
  by (induction ds arbitrary: m) (auto simp: Let_def)

lemma register_obj_types_dom:
  "dom (snd (register_obj_types ots pd) t) = dom (pd t) \<union> set (registered_names ots t)"
proof (induction ots arbitrary: pd)
  case Nil
  then show ?case by simp
next
  case (Cons a ots)
  obtain objType props where a: "a = (objType, props)" by (cases a)
  show ?case
  proof (cases "obj_type_of objType")
    case None
    then show ?thesis using Cons.IH a by simp
  next
    case (Some t')
    let ?pd' = "pd(t' := snd (register_props objType props (pd t')))"
    have step: "snd (register_obj_types (a # ots) pd) = snd (register_obj_types ots ?pd')"
      using Some a by (simp add: Let_def)
    have ih: "dom (snd (register_obj_types ots ?pd') t)
                = dom (?pd' t) \<union> set (registered_names ots t)"
      by (rule Cons.IH)
    show ?thesis
    proof (cases "t = t'")
      case True
      then have "dom (?pd' t) = dom (pd t) \<union> d_name ` set props"
        by (simp add: register_props_dom)
      moreover have "set (registered_names (a # ots) t)
                       = d_name ` set props \<union> set (registered_names ots t)"
        using Some a True by simp
      ultimately show ?thesis unfolding step ih by blast
    next
      case False
      then have "dom (?pd' t) = dom (pd t)" by simp
      moreover have "set (registered_names (a # ots) t) = set (registered_names ots t)"
        using Some a False by auto
      ultimately show ?thesis unfolding step ih by simp
    qed
  qed
qed

lemma registry_after_pass:
  "(snd (writePropertyDefinitions defs empty_prop_defs) t name \<noteq> None) = registered defs t name"
proof (cases defs)
  case None
  then show ?thesis
    by (simp add: writePropertyDefinitions_def empty_prop_defs_def registered_def)
next
  case (Some ots)
  have "(snd (register_obj_types ots empty_prop_defs) t name \<noteq> None)
          = (name \<in> dom (snd (register_obj_types ots empty_prop_defs) t))"
    by (simp add: dom_def)
  also have "\<dots> = (name \<in> set (registered_names ots t))"
    by (simp add: register_obj_types_dom empty_prop_defs_def)
  finally show ?thesis
    using Some by (simp add: writePropertyDefinitions_def registered_def Let_def)
qed

subsection \<open>Selection maps\<close>

lemma mark_iterm_insts_apply:
  "mark_iterm_insts ts m i = (m i \<or> i \<in> it_inst_id ` set ts)"
  by (induction ts arbitrary: m) auto

lemma mark_insts_apply:
  "mark_insts is m i = (m i \<or> i \<in> set is)"
  by (induction "is" arbitrary: m) auto

lemma select_nets_loop_net_map:
  "fst (select_nets_loop nets nm im) n = (nm n \<or> n \<in> ns_id ` set nets)"
  by (induction nets arbitrary: nm im) (auto simp: Let_def)

lemma select_nets_loop_none:
  "(snd (select_nets_loop nets nm im) = None) = (im = None \<and> \<not> list_ex regular_net nets)"
  by (induction nets arbitrary: nm im) (auto simp: Let_def regular_net_def)

lemma select_nets_loop_inst_map:
  "snd (select_nets_loop nets nm im) = Some m' \<Longrightarrow>
   m' i = ((case im of None \<Rightarrow> False | Some m \<Rightarrow> m i) \<or> i \<in> set (connected_insts nets))"
proof (induction nets arbitrary: nm im)
  case Nil
  then show ?case by simp
next
  case (Cons net rest)
  show ?case
  proof (cases "regular_net net")
    case False
    have s: "snd (select_nets_loop rest (nm(ns_id net := True)) im) = Some m'"
      using Cons.prems False by (auto simp: regular_net_def Let_def)
    from Cons.IH[OF s] False show ?thesis by simp
  next
    case True
    let ?im0 = "case im of None \<Rightarrow> new_dbMap | Some m \<Rightarrow> m"
    let ?im1 = "mark_iterm_insts (ns_iterms net) ?im0"
    have s: "snd (select_nets_loop rest (nm(ns_id net := True)) (Some ?im1)) = Some m'"
      using Cons.prems True by (simp add: regular_net_def Let_def)
    from Cons.IH[OF s]
    have "m' i = (?im1 i \<or> i \<in> set (connected_insts rest))" by simp
    moreover have "?im1 i = ((case im of None \<Rightarrow> False | Some m \<Rightarrow> m i)
                              \<or> i \<in> it_inst_id ` set (ns_iterms net))"
      by (cases im) (simp_all add: mark_iterm_insts_apply new_dbMap_def)
    ultimately show ?thesis using True by auto
  qed
qed

lemma inst_selected_build:
  assumes "list_ex regular_net nets \<or> insts \<noteq> []"
  shows "inst_selected (build_selection nets insts no_selection) i
           = (i \<in> set (connected_insts nets) \<or> i \<in> set insts)"
proof -
  let ?r = "select_nets_loop nets new_dbMap None"
  have ci: "\<not> list_ex regular_net nets \<Longrightarrow> connected_insts nets = []"
    by (induction nets) auto
  show ?thesis
  proof (cases "list_ex regular_net nets")
    case True
    then have ne: "nets \<noteq> []" by auto
    from True obtain m' where m': "snd ?r = Some m'"
      using select_nets_loop_none[of nets new_dbMap None] by (cases "snd ?r") auto
    have mi: "\<And>j. m' j = (j \<in> set (connected_insts nets))"
      using select_nets_loop_inst_map[OF m'] by simp
    show ?thesis
      using ne m' mi
      by (simp add: build_selection_def no_selection_def Let_def inst_selected_def
            mark_insts_apply)
  next
    case False
    then have none: "snd ?r = None"
      using select_nets_loop_none[of nets new_dbMap None] by simp
    from False assms have "insts \<noteq> []" by simp
    then show ?thesis
      using none ci[OF False]
      by (simp add: build_selection_def no_selection_def Let_def inst_selected_def
            mark_insts_apply new_dbMap_def)
  qed
qed

subsection \<open>Wire decoding steps\<close>

lemmas wire_eval_defs = writeWire_def wire_state_init_def INT_MAX_def wire_step_def
  path_start_def line_break_def point_token_def point_mask_statement_def layer_out_name_def
  rule_token_def Let_def

lemma path_start_resets:
  "is_path_start (opcode p) \<Longrightarrow> point_cnt (snd (wire_step w ndr nwt rest p st)) = 0"
  by (cases "opcode p") (simp_all add: wire_step_def path_start_def Let_def)

section \<open>Version gating\<close>

text \<open>
  Claim C1 says that for the format versions 5.3, 5.4 and 5.5 the output contains none of
  HALO, SUPPLYSENSITIVITY, GROUNDSENSITIVITY and the via MASK syntax, whatever the data
  carries, and that from the introducing version on the field is written when the data carries
  it. The writer tests \<^verbatim>\<open>_version >= defout::DEF_5_6\<close> (and \<^verbatim>\<open>>= DEF_5_8\<close> for the via mask)
  on an enumeration declared from \<^verbatim>\<open>DEF_5_8\<close> down to \<^verbatim>\<open>DEF_5_3\<close>, so the tests hold for the
  old versions and fail for the new ones. With version 5.3, 5.4 or 5.5 an instance that has a
  halo gets its HALO field, a pin with supply and ground pins gets both sensitivity fields
  and a coloured via gets its MASK statement; with version 5.7 or 5.8 the halo and the
  sensitivity fields are left out.
\<close>

theorem version_gates_reversed:
  "halo_field (w\<lparr>version := DEF_5_3\<rparr>) box
     \<in> set (writeInst (w\<lparr>version := DEF_5_3\<rparr>) pd (inst\<lparr>inst_halo := Some box\<rparr>))
   \<and> halo_field (w\<lparr>version := DEF_5_4\<rparr>) box
     \<in> set (writeInst (w\<lparr>version := DEF_5_4\<rparr>) pd (inst\<lparr>inst_halo := Some box\<rparr>))
   \<and> halo_field (w\<lparr>version := DEF_5_5\<rparr>) box
     \<in> set (writeInst (w\<lparr>version := DEF_5_5\<rparr>) pd (inst\<lparr>inst_halo := Some box\<rparr>))
   \<and> writeInst (w\<lparr>version := DEF_5_7\<rparr>) pd (inst\<lparr>inst_halo := Some box\<rparr>)
       = writeInst (w\<lparr>version := DEF_5_7\<rparr>) pd (inst\<lparr>inst_halo := None\<rparr>)
   \<and> writeInst (w\<lparr>version := DEF_5_8\<rparr>) pd (inst\<lparr>inst_halo := Some box\<rparr>)
       = writeInst (w\<lparr>version := DEF_5_8\<rparr>) pd (inst\<lparr>inst_halo := None\<rparr>)
   \<and> sensitivity_fields (w\<lparr>version := DEF_5_3\<rparr>)
         (bterm\<lparr>bt_supply_pin := Some s, bt_ground_pin := Some g\<rparr>)
       = ['' + SUPPLYSENSITIVITY '' @ s, '' + GROUNDSENSITIVITY '' @ g]
   \<and> sensitivity_fields (w\<lparr>version := DEF_5_4\<rparr>)
         (bterm\<lparr>bt_supply_pin := Some s, bt_ground_pin := Some g\<rparr>)
       = ['' + SUPPLYSENSITIVITY '' @ s, '' + GROUNDSENSITIVITY '' @ g]
   \<and> sensitivity_fields (w\<lparr>version := DEF_5_5\<rparr>)
         (bterm\<lparr>bt_supply_pin := Some s, bt_ground_pin := Some g\<rparr>)
       = ['' + SUPPLYSENSITIVITY '' @ s, '' + GROUNDSENSITIVITY '' @ g]
   \<and> sensitivity_fields (w\<lparr>version := DEF_5_7\<rparr>)
         (bterm\<lparr>bt_supply_pin := Some s, bt_ground_pin := Some g\<rparr>) = []
   \<and> sensitivity_fields (w\<lparr>version := DEF_5_8\<rparr>)
         (bterm\<lparr>bt_supply_pin := Some s, bt_ground_pin := Some g\<rparr>) = []
   \<and> via_mask_statement (w\<lparr>version := DEF_5_3\<rparr>) (Some c)
       = ''MASK '' @ show_nat (top_color c) @ show_nat (cut_color c)
           @ show_nat (bottom_color c) @ '' ''
   \<and> via_mask_statement (w\<lparr>version := DEF_5_4\<rparr>) (Some c)
       = via_mask_statement (w\<lparr>version := DEF_5_3\<rparr>) (Some c)
   \<and> via_mask_statement (w\<lparr>version := DEF_5_5\<rparr>) (Some c)
       = via_mask_statement (w\<lparr>version := DEF_5_3\<rparr>) (Some c)"
  by (simp add: writeInst_def sensitivity_fields_def via_mask_statement_def ver_defs Let_def)

section \<open>Declared record counts\<close>

text \<open>
  Claim C2 says that the record count in a section header equals the number of records
  written, for any selection; in particular for COMPONENTS after instance filtering and for
  PINS, where a pin skipped for having no net is not counted. \<^verbatim>\<open>writeInsts\<close> prints
  \<^verbatim>\<open>insts.size()\<close> before it filters: with two instances and a selected net that reaches one
  of them, the header declares 2 components and one record follows. \<^verbatim>\<open>writeBTerms\<close> counts a
  pin that has no net, and \<^verbatim>\<open>writeBTerm\<close> then skips it with a warning: the header declares
  1 pin and no record follows.
\<close>

theorem declared_counts_not_emitted:
  "writeInsts (ex_writer DEF_5_8) empty_prop_defs
      (build_selection [ex_net_sel 7 [ex_iterm ''a'' 1]] [] no_selection)
      [ex_inst ''b'' 2, ex_inst ''a'' 1]
     = [''COMPONENTS 2 ;\<newline>'',
        ''    - a BUF'', '' + PLACED ( 0 0 ) N'', '' ;\<newline>'',
        ''END COMPONENTS\<newline>'']
   \<and> writeBTerms (ex_writer DEF_5_8) no_selection [ex_bterm ''p'' None]
     = ([''PINS 1 ;\<newline>'', ''END PINS\<newline>''],
        [''warning: pin p skipped because it has no net''])"
  by (simp add: ex_defs show_defs writeInsts_def insts_declared_def insts_written_def
        inst_selected_def build_selection_def no_selection_def new_dbMap_def writeInst_def
        property_clause_def empty_prop_defs_def paren_xy_def ver_defs writeBTerms_def
        pins_declared_def pins_visited_def bterm_selected_def writeBTerm_def Let_def)

section \<open>Property emission\<close>

text \<open>
  Claim C3 says that a property value appears in an object's PROPERTY clause only if its
  name was registered for the object's category, an unregistered property being skipped even
  when the object also carries registered ones. It fails on a net that carries FOO and BAR
  when only FOO is registered for nets: BAR is not in the registry, and the clause lists
  both.
\<close>

theorem unregistered_property_written_counterexample:
  "snd (writePropertyDefinitions (Some [(''NET'', [ex_prop_def ''FOO''])]) empty_prop_defs)
       NET ''BAR'' = None
   \<and> property_clause
        (snd (writePropertyDefinitions (Some [(''NET'', [ex_prop_def ''FOO''])]) empty_prop_defs))
        NET '' + PROPERTY '' [ex_prop ''FOO'' 1, ex_prop ''BAR'' 2]
      = ['' + PROPERTY '', ''FOO '', ''1 '', ''BAR '', ''2 '']"
  by (simp add: writePropertyDefinitions_def empty_prop_defs_def obj_type_of_def Let_def
        ex_defs show_defs property_clause_def writeProperties_def)

text \<open>
  Claim C3 as amended: the gate is per object. After the property-definitions pass, an
  object's PROPERTY clause is written if and only if at least one of the object's property
  names is registered for its category; when it is written, it lists every property of the
  object, in order, registered or not; otherwise nothing is written for the object.
\<close>

theorem property_clause_per_object:
  "property_clause (snd (writePropertyDefinitions defs empty_prop_defs)) t keyword props
     = (if list_ex (\<lambda>p. registered defs t (p_name p)) props
        then keyword # concat (map property_text props)
        else [])"
  by (simp add: property_clause_def hasProperties_iff writeProperties_all registry_after_pass
        list_ex_iff del: not_None_eq)

text \<open>
  The amended claim C3 on a net category that registers FOO only: a net carrying BAR alone
  gets no clause, a net carrying BAR and FOO gets both written.
\<close>

theorem property_clause_per_object_witness:
  "property_clause
      (snd (writePropertyDefinitions (Some [(''NET'', [ex_prop_def ''FOO''])]) empty_prop_defs))
      NET '' + PROPERTY '' [ex_prop ''BAR'' 2] = []
   \<and> property_clause
      (snd (writePropertyDefinitions (Some [(''NET'', [ex_prop_def ''FOO''])]) empty_prop_defs))
      NET '' + PROPERTY '' [ex_prop ''BAR'' 2, ex_prop ''FOO'' 1]
     = ['' + PROPERTY '', ''BAR '', ''2 '', ''FOO '', ''1 '']"
  using property_clause_per_object
          [of "Some [(''NET'', [ex_prop_def ''FOO''])]" NET "'' + PROPERTY ''" "[ex_prop ''BAR'' 2]"]
        property_clause_per_object
          [of "Some [(''NET'', [ex_prop_def ''FOO''])]" NET "'' + PROPERTY ''"
              "[ex_prop ''BAR'' 2, ex_prop ''FOO'' 1]"]
  by (simp add: registered_def obj_type_of_def ex_defs property_text_def show_defs)

section \<open>Destination that cannot be opened\<close>

text \<open>
  Claim C4 says that both entry points, \<^verbatim>\<open>writeBlock\<close> and \<^verbatim>\<open>writeBlock_Pl\<close>, log a warning,
  abort cleanly and return failure without output when the destination cannot be opened.
  \<^verbatim>\<open>writeBlock\<close> does. \<^verbatim>\<open>writeBlock_Pl\<close> has no test of the stream: it logs nothing, does not
  return \<^verbatim>\<open>false\<close>, and passes the null stream on.
\<close>

theorem open_failure_paths:
  "writeBlock w pd sel0 nets insts others block def_file False
     = \<lparr>pr_outcome = Returned False,
        pr_warnings = [''Cannot open DEF file ('' @ def_file @ '') for writing''],
        pr_written = None\<rparr>
   \<and> writeBlock_Pl w sel0 nets insts block def_file False
     = \<lparr>pr_outcome = NullStreamUsed, pr_warnings = [], pr_written = None\<rparr>"
  by (simp add: writeBlock_def writeBlock_Pl_def Let_def)

section \<open>Selection builder\<close>

text \<open>
  Claim C5: with a non-empty selection list, the builder marks every selected net (and no
  other net) included; the instances that pass the instance filter are exactly those with a
  terminal on a selected net that is neither special nor mark-1ed, plus the explicitly
  selected instances; a single selected such net lets exactly its connected instances pass;
  and with empty selection lists the maps stay absent and nothing is filtered.
\<close>

theorem selection_builder:
  "(select_net_list \<noteq> [] \<longrightarrow>
      (\<exists>nm. select_net_map (build_selection select_net_list select_inst_list no_selection) = Some nm
            \<and> (\<forall>n. nm n = (n \<in> ns_id ` set select_net_list))))
   \<and> (list_ex regular_net select_net_list \<or> select_inst_list \<noteq> [] \<longrightarrow>
        (\<forall>i. inst_selected (build_selection select_net_list select_inst_list no_selection) i
              = (i \<in> set (connected_insts select_net_list) \<or> i \<in> set select_inst_list)))
   \<and> (regular_net net \<longrightarrow>
        {i. inst_selected (build_selection [net] [] no_selection) i}
          = it_inst_id ` set (ns_iterms net))
   \<and> build_selection [] [] no_selection = no_selection
   \<and> inst_selected no_selection i \<and> net_selected no_selection n"
proof (intro conjI impI)
  assume ne: "select_net_list \<noteq> []"
  then show "\<exists>nm. select_net_map (build_selection select_net_list select_inst_list no_selection)
                    = Some nm
            \<and> (\<forall>n. nm n = (n \<in> ns_id ` set select_net_list))"
    by (simp add: build_selection_def no_selection_def Let_def select_nets_loop_net_map
          new_dbMap_def)
next
  assume "list_ex regular_net select_net_list \<or> select_inst_list \<noteq> []"
  then show "\<forall>i. inst_selected (build_selection select_net_list select_inst_list no_selection) i
              = (i \<in> set (connected_insts select_net_list) \<or> i \<in> set select_inst_list)"
    using inst_selected_build by blast
next
  assume r: "regular_net net"
  then have "list_ex regular_net [net] \<or> ([]::nat list) \<noteq> []" by simp
  from inst_selected_build[OF this] r
  show "{i. inst_selected (build_selection [net] [] no_selection) i}
          = it_inst_id ` set (ns_iterms net)"
    by auto
next
  show "build_selection [] [] no_selection = no_selection"
    by (simp add: build_selection_def)
next
  show "inst_selected no_selection i" by (simp add: inst_selected_def no_selection_def)
next
  show "net_selected no_selection n" by (simp add: net_selected_def no_selection_def)
qed

text \<open>
  Claim C5 on a selected regular net with three terminals on two distinct instances:
  exactly the instances 1 and 3 pass the instance filter.
\<close>

theorem selection_builder_witness:
  "regular_net (ex_net_sel 7 [ex_iterm ''a'' 1, ex_iterm ''c'' 3, ex_iterm ''a'' 1])
   \<and> {i. inst_selected
            (build_selection [ex_net_sel 7 [ex_iterm ''a'' 1, ex_iterm ''c'' 3, ex_iterm ''a'' 1]]
               [] no_selection) i} = {1, 3}"
  using selection_builder
          [of "[ex_net_sel 7 [ex_iterm ''a'' 1, ex_iterm ''c'' 3, ex_iterm ''a'' 1]]" "[]"
              "ex_net_sel 7 [ex_iterm ''a'' 1, ex_iterm ''c'' 3, ex_iterm ''a'' 1]" 0 0]
  by (simp add: regular_net_def ex_net_sel_def ex_iterm_def) auto

section \<open>Header\<close>

text \<open>
  Claim C6 says that for the versions below 5.6 the header has the line
  \<^verbatim>\<open>NAMESCASESENSITIVE ON ;\<close> right after the version statement and that from 5.6 on the
  line is absent. The writer tests \<^verbatim>\<open>_version < defout::DEF_5_6\<close> on the enumeration declared
  from \<^verbatim>\<open>DEF_5_8\<close> down to \<^verbatim>\<open>DEF_5_3\<close>: the line follows the version statement exactly
  when the version is 5.7 or 5.8; for 5.3, 5.4 and 5.5 (and 5.6) the header does not have it.
\<close>

theorem header_namescasesensitive_by_version:
  "(write_header w block ! 1 = ''NAMESCASESENSITIVE ON ;\<newline>'')
     = (def_number (version w) = (5, 7) \<or> def_number (version w) = (5, 8))
   \<and> (''NAMESCASESENSITIVE ON ;\<newline>'' \<in> set (write_header w block))
     = (def_number (version w) = (5, 7) \<or> def_number (version w) = (5, 8))
   \<and> write_header w block ! 0 = version_statement (version w)
   \<and> ''NAMESCASESENSITIVE ON ;\<newline>'' \<notin> set (write_header (w\<lparr>version := DEF_5_3\<rparr>) block)
   \<and> ''NAMESCASESENSITIVE ON ;\<newline>'' \<notin> set (write_header (w\<lparr>version := DEF_5_4\<rparr>) block)
   \<and> ''NAMESCASESENSITIVE ON ;\<newline>'' \<notin> set (write_header (w\<lparr>version := DEF_5_5\<rparr>) block)
   \<and> write_header (w\<lparr>version := DEF_5_7\<rparr>) block ! 1 = ''NAMESCASESENSITIVE ON ;\<newline>''
   \<and> write_header (w\<lparr>version := DEF_5_8\<rparr>) block ! 1 = ''NAMESCASESENSITIVE ON ;\<newline>''"
  by (cases "version w") (simp_all add: write_header_def ver_defs Let_def)

section \<open>Special-net rectangles of undefined direction\<close>

text \<open>
  Claim C7: for a special-net rectangle whose direction is UNDEFINED, if exactly one axis
  span is even that axis is collapsed to its midpoint and its span is the width; if both
  are even the shorter span is collapsed (the x axis when they are equal); the fatal error
  is raised if and only if both spans are odd, and no other failure occurs. On a rectangle
  with ordered corners the spans are the integer differences of the coordinates and the
  collapsed coordinate is the integer midpoint. What \<^verbatim>\<open>writeSpecialPath\<close> writes is the one
  chunk that names the layer, then the converted width, then the two end points of the
  collapsed rectangle (with the shape type and the mask where the box has them). When both
  spans are odd nothing is written for the box, the loop over the boxes of the wire ends
  there, and a pass that writes the box does not return: it ends in a thrown fatal error,
  with only what precedes the net sections and what the net sections had written so far.
\<close>

theorem undefined_direction_parity:
  assumes "sb_direction box = UNDEFINED"
  shows "((special_path_centerline box = Inl (ZException odd_both_message))
            = (odd (unat (sbox_dx box)) \<and> odd (unat (sbox_dy box))))
       \<and> ((\<exists>e. writeSpecialPath w box = Inl e)
            = (odd (unat (sbox_dx box)) \<and> odd (unat (sbox_dy box))))
       \<and> ((writeSpecialPath w box = Inl (ZException odd_both_message))
            = (odd (unat (sbox_dx box)) \<and> odd (unat (sbox_dy box))))
       \<and> (even (unat (sbox_dx box)) \<and> odd (unat (sbox_dy box))
            \<longrightarrow> special_path_centerline box = Inr (x_collapsed box))
       \<and> (odd (unat (sbox_dx box)) \<and> even (unat (sbox_dy box))
            \<longrightarrow> special_path_centerline box = Inr (y_collapsed box))
       \<and> (even (unat (sbox_dx box)) \<and> even (unat (sbox_dy box)) \<and> sbox_dy box < sbox_dx box
            \<longrightarrow> special_path_centerline box = Inr (y_collapsed box))
       \<and> (even (unat (sbox_dx box)) \<and> even (unat (sbox_dy box)) \<and> sbox_dx box \<le> sbox_dy box
            \<longrightarrow> special_path_centerline box = Inr (x_collapsed box))
       \<and> cl_x1 (x_collapsed box) = cl_x2 (x_collapsed box)
       \<and> cl_w (x_collapsed box) = sbox_dx box
       \<and> cl_y1 (y_collapsed box) = cl_y2 (y_collapsed box)
       \<and> cl_w (y_collapsed box) = sbox_dy box
       \<and> (sint (sb_xMin box) \<le> sint (sb_xMax box) \<longrightarrow>
            uint (sbox_dx box) = sint (sb_xMax box) - sint (sb_xMin box)
            \<and> sint (cl_x1 (x_collapsed box))
                = sint (sb_xMin box) + (sint (sb_xMax box) - sint (sb_xMin box)) div 2)
       \<and> (sint (sb_yMin box) \<le> sint (sb_yMax box) \<longrightarrow>
            uint (sbox_dy box) = sint (sb_yMax box) - sint (sb_yMin box)
            \<and> sint (cl_y1 (y_collapsed box))
                = sint (sb_yMin box) + (sint (sb_yMax box) - sint (sb_yMin box)) div 2)
       \<and> (even (unat (sbox_dx box)) \<and> odd (unat (sbox_dy box))
            \<longrightarrow> writeSpecialPath w box = Inr [special_path_text w box (x_collapsed box)])
       \<and> (odd (unat (sbox_dx box)) \<and> even (unat (sbox_dy box))
            \<longrightarrow> writeSpecialPath w box = Inr [special_path_text w box (y_collapsed box)])
       \<and> (even (unat (sbox_dx box)) \<and> even (unat (sbox_dy box)) \<and> sbox_dy box < sbox_dx box
            \<longrightarrow> writeSpecialPath w box = Inr [special_path_text w box (y_collapsed box)])
       \<and> (even (unat (sbox_dx box)) \<and> even (unat (sbox_dy box)) \<and> sbox_dx box \<le> sbox_dy box
            \<longrightarrow> writeSpecialPath w box = Inr [special_path_text w box (x_collapsed box)])
       \<and> (\<forall>c. special_path_text w box c
              = '' '' @ layer_out_name w (sb_layer box) @ '' ''
                @ show_int (defdist_int w (uint (cl_w c)))
                @ (if sb_layer_mask box \<noteq> 0 then
                     (case sb_shape_type box of
                        SHAPE_NONE \<Rightarrow>
                          '' '' @ paren_xy (defdist_int w (sint (cl_x1 c)))
                                           (defdist_int w (sint (cl_y1 c)))
                          @ '' MASK '' @ show_int (sint (sb_layer_mask box)) @ '' ''
                          @ paren_xy (defdist_int w (sint (cl_x2 c)))
                                     (defdist_int w (sint (cl_y2 c)))
                      | SHAPE_OTHER s \<Rightarrow>
                          '' + SHAPE '' @ s @ '' + MASK '' @ show_int (sint (sb_layer_mask box))
                          @ '' + ''
                          @ paren_xy (defdist_int w (sint (cl_x1 c)))
                                     (defdist_int w (sint (cl_y1 c)))
                          @ '' ''
                          @ paren_xy (defdist_int w (sint (cl_x2 c)))
                                     (defdist_int w (sint (cl_y2 c))))
                   else
                     (case sb_shape_type box of
                        SHAPE_NONE \<Rightarrow>
                          '' '' @ paren_xy (defdist_int w (sint (cl_x1 c)))
                                           (defdist_int w (sint (cl_y1 c)))
                          @ '' ''
                          @ paren_xy (defdist_int w (sint (cl_x2 c)))
                                     (defdist_int w (sint (cl_y2 c)))
                      | SHAPE_OTHER s \<Rightarrow>
                          '' + SHAPE '' @ s @ '' ''
                          @ paren_xy (defdist_int w (sint (cl_x1 c)))
                                     (defdist_int w (sint (cl_y1 c)))
                          @ '' ''
                          @ paren_xy (defdist_int w (sint (cl_x2 c)))
                                     (defdist_int w (sint (cl_y2 c))))))
       \<and> (odd (unat (sbox_dx box)) \<and> odd (unat (sbox_dy box)) \<longrightarrow>
            writeSBoxes w (SBOX_RECT box # rest) i
              = \<lparr>r_out = (if 0 < i then [''\<newline>      NEW''] else []),
                 r_warnings = [],
                 r_fatal = Some (ZException odd_both_message)\<rparr>)
       \<and> (odd (unat (sbox_dx box)) \<and> odd (unat (sbox_dy box))
            \<and> SBOX_RECT box \<in> set (special_boxes (build_selection snl sil sel_in) (blk_nets block))
            \<longrightarrow>
            (\<exists>e. pr_outcome (writeBlock w pd sel_in snl sil others block def_file True) = Threw e
                 \<and> pr_written (writeBlock w pd sel_in snl sil others block def_file True)
                     = Some (sections_before_nets w pd (build_selection snl sil sel_in) others block
                             @ r_out (writeNets w
                                        (snd (writePropertyDefinitions
                                                (blk_prop_definitions block) pd))
                                        (build_selection snl sil sel_in) (blk_nets block)))))"
proof -
  note c = undefined_centerline[OF assms]
  have 1: "(special_path_centerline box = Inl (ZException odd_both_message))
            = (odd (unat (sbox_dx box)) \<and> odd (unat (sbox_dy box)))"
    unfolding c by simp
  have 2: "(\<exists>e. writeSpecialPath w box = Inl e)
            = (odd (unat (sbox_dx box)) \<and> odd (unat (sbox_dy box)))"
    unfolding writeSpecialPath_def c by simp
  have 3: "(writeSpecialPath w box = Inl (ZException odd_both_message))
            = (odd (unat (sbox_dx box)) \<and> odd (unat (sbox_dy box)))"
    unfolding writeSpecialPath_def c by simp
  have 4: "even (unat (sbox_dx box)) \<and> odd (unat (sbox_dy box))
            \<longrightarrow> special_path_centerline box = Inr (x_collapsed box)"
    unfolding c by simp
  have 5: "odd (unat (sbox_dx box)) \<and> even (unat (sbox_dy box))
            \<longrightarrow> special_path_centerline box = Inr (y_collapsed box)"
    unfolding c by simp
  have 6: "even (unat (sbox_dx box)) \<and> even (unat (sbox_dy box)) \<and> sbox_dy box < sbox_dx box
            \<longrightarrow> special_path_centerline box = Inr (y_collapsed box)"
    unfolding c by simp
  have 7: "even (unat (sbox_dx box)) \<and> even (unat (sbox_dy box)) \<and> sbox_dx box \<le> sbox_dy box
            \<longrightarrow> special_path_centerline box = Inr (x_collapsed box)"
    unfolding c by auto
  have 8: "cl_x1 (x_collapsed box) = cl_x2 (x_collapsed box)"
    and wx: "cl_w (x_collapsed box) = sbox_dx box"
    and yy: "cl_y1 (y_collapsed box) = cl_y2 (y_collapsed box)"
    and wy: "cl_w (y_collapsed box) = sbox_dy box"
    by (simp_all add: x_collapsed_def y_collapsed_def)
  have 9: "sint (sb_xMin box) \<le> sint (sb_xMax box) \<longrightarrow>
            uint (sbox_dx box) = sint (sb_xMax box) - sint (sb_xMin box)
            \<and> sint (cl_x1 (x_collapsed box))
                = sint (sb_xMin box) + (sint (sb_xMax box) - sint (sb_xMin box)) div 2"
  proof (intro impI conjI)
    assume le: "sint (sb_xMin box) \<le> sint (sb_xMax box)"
    show "uint (sbox_dx box) = sint (sb_xMax box) - sint (sb_xMin box)"
      using span_exact[OF le] by (simp add: sbox_dx_def)
    show "sint (cl_x1 (x_collapsed box))
            = sint (sb_xMin box) + (sint (sb_xMax box) - sint (sb_xMin box)) div 2"
      using midpoint_exact[OF le] by (simp add: x_collapsed_def sbox_dx_def)
  qed
  have 10: "sint (sb_yMin box) \<le> sint (sb_yMax box) \<longrightarrow>
            uint (sbox_dy box) = sint (sb_yMax box) - sint (sb_yMin box)
            \<and> sint (cl_y1 (y_collapsed box))
                = sint (sb_yMin box) + (sint (sb_yMax box) - sint (sb_yMin box)) div 2"
  proof (intro impI conjI)
    assume le: "sint (sb_yMin box) \<le> sint (sb_yMax box)"
    show "uint (sbox_dy box) = sint (sb_yMax box) - sint (sb_yMin box)"
      using span_exact[OF le] by (simp add: sbox_dy_def)
    show "sint (cl_y1 (y_collapsed box))
            = sint (sb_yMin box) + (sint (sb_yMax box) - sint (sb_yMin box)) div 2"
      using midpoint_exact[OF le] by (simp add: y_collapsed_def sbox_dy_def)
  qed
  have 11: "even (unat (sbox_dx box)) \<and> odd (unat (sbox_dy box))
            \<longrightarrow> writeSpecialPath w box = Inr [special_path_text w box (x_collapsed box)]"
    unfolding writeSpecialPath_def c by simp
  have 12: "odd (unat (sbox_dx box)) \<and> even (unat (sbox_dy box))
            \<longrightarrow> writeSpecialPath w box = Inr [special_path_text w box (y_collapsed box)]"
    unfolding writeSpecialPath_def c by simp
  have 13: "even (unat (sbox_dx box)) \<and> even (unat (sbox_dy box)) \<and> sbox_dy box < sbox_dx box
            \<longrightarrow> writeSpecialPath w box = Inr [special_path_text w box (y_collapsed box)]"
    unfolding writeSpecialPath_def c by simp
  have 14: "even (unat (sbox_dx box)) \<and> even (unat (sbox_dy box)) \<and> sbox_dx box \<le> sbox_dy box
            \<longrightarrow> writeSpecialPath w box = Inr [special_path_text w box (x_collapsed box)]"
    unfolding writeSpecialPath_def c by auto
  have 16: "odd (unat (sbox_dx box)) \<and> odd (unat (sbox_dy box)) \<longrightarrow>
            writeSBoxes w (SBOX_RECT box # rest) i
              = \<lparr>r_out = (if 0 < i then [''\<newline>      NEW''] else []),
                 r_warnings = [],
                 r_fatal = Some (ZException odd_both_message)\<rparr>"
  proof (intro impI)
    assume "odd (unat (sbox_dx box)) \<and> odd (unat (sbox_dy box))"
    with 3 have ws: "writeSpecialPath w box = Inl (ZException odd_both_message)" by simp
    show "writeSBoxes w (SBOX_RECT box # rest) i
              = \<lparr>r_out = (if 0 < i then [''\<newline>      NEW''] else []),
                 r_warnings = [],
                 r_fatal = Some (ZException odd_both_message)\<rparr>"
      by (simp add: ws write_sbox_def run_then_def run_ok_def run_throw_def)
  qed
  have 17: "odd (unat (sbox_dx box)) \<and> odd (unat (sbox_dy box))
            \<and> SBOX_RECT box \<in> set (special_boxes (build_selection snl sil sel_in) (blk_nets block))
            \<longrightarrow>
            (\<exists>e. pr_outcome (writeBlock w pd sel_in snl sil others block def_file True) = Threw e
                 \<and> pr_written (writeBlock w pd sel_in snl sil others block def_file True)
                     = Some (sections_before_nets w pd (build_selection snl sil sel_in) others block
                             @ r_out (writeNets w
                                        (snd (writePropertyDefinitions
                                                (blk_prop_definitions block) pd))
                                        (build_selection snl sil sel_in) (blk_nets block))))"
  proof (intro impI)
    assume a: "odd (unat (sbox_dx box)) \<and> odd (unat (sbox_dy box))
            \<and> SBOX_RECT box \<in> set (special_boxes (build_selection snl sil sel_in) (blk_nets block))"
    then have "sbox_fatal (SBOX_RECT box) = Some (ZException odd_both_message)"
      using 1 by (simp add: sbox_fatal_def)
    with a have "Some (ZException odd_both_message)
                   \<in> set (map sbox_fatal
                            (special_boxes (build_selection snl sil sel_in) (blk_nets block)))"
      by force
    from first_fatal_member[OF this] obtain e where
      "first_fatal (map sbox_fatal
         (special_boxes (build_selection snl sil sel_in) (blk_nets block))) = Some e"
      by blast
    then have t: "pr_outcome (writeBlock w pd sel_in snl sil others block def_file True) = Threw e"
      by (simp add: writeBlock_outcome)
    from t writeBlock_threw[OF t] show "\<exists>e.
        pr_outcome (writeBlock w pd sel_in snl sil others block def_file True) = Threw e
        \<and> pr_written (writeBlock w pd sel_in snl sil others block def_file True)
            = Some (sections_before_nets w pd (build_selection snl sil sel_in) others block
                    @ r_out (writeNets w
                               (snd (writePropertyDefinitions (blk_prop_definitions block) pd))
                               (build_selection snl sil sel_in) (blk_nets block)))"
      by blast
  qed
  have 15: "\<forall>c. special_path_text w box c
              = '' '' @ layer_out_name w (sb_layer box) @ '' ''
                @ show_int (defdist_int w (uint (cl_w c)))
                @ (if sb_layer_mask box \<noteq> 0 then
                     (case sb_shape_type box of
                        SHAPE_NONE \<Rightarrow>
                          '' '' @ paren_xy (defdist_int w (sint (cl_x1 c)))
                                           (defdist_int w (sint (cl_y1 c)))
                          @ '' MASK '' @ show_int (sint (sb_layer_mask box)) @ '' ''
                          @ paren_xy (defdist_int w (sint (cl_x2 c)))
                                     (defdist_int w (sint (cl_y2 c)))
                      | SHAPE_OTHER s \<Rightarrow>
                          '' + SHAPE '' @ s @ '' + MASK '' @ show_int (sint (sb_layer_mask box))
                          @ '' + ''
                          @ paren_xy (defdist_int w (sint (cl_x1 c)))
                                     (defdist_int w (sint (cl_y1 c)))
                          @ '' ''
                          @ paren_xy (defdist_int w (sint (cl_x2 c)))
                                     (defdist_int w (sint (cl_y2 c))))
                   else
                     (case sb_shape_type box of
                        SHAPE_NONE \<Rightarrow>
                          '' '' @ paren_xy (defdist_int w (sint (cl_x1 c)))
                                           (defdist_int w (sint (cl_y1 c)))
                          @ '' ''
                          @ paren_xy (defdist_int w (sint (cl_x2 c)))
                                     (defdist_int w (sint (cl_y2 c)))
                      | SHAPE_OTHER s \<Rightarrow>
                          '' + SHAPE '' @ s @ '' ''
                          @ paren_xy (defdist_int w (sint (cl_x1 c)))
                                     (defdist_int w (sint (cl_y1 c)))
                          @ '' ''
                          @ paren_xy (defdist_int w (sint (cl_x2 c)))
                                     (defdist_int w (sint (cl_y2 c)))))"
    by (intro allI) (rule special_path_text_form)
  show ?thesis
    by (intro conjI 1 2 3 4 5 6 7 8 wx yy wy 9 10 11 12 13 14 15 16 17)
qed

text \<open>
  Claim C7 on rectangles of undefined direction. 10 by 3 collapses the x axis to 5 with
  width 10 and is written as \<^verbatim>\<open>M1 10 ( 5 0 ) ( 5 3 )\<close>; 10 by 4 collapses the shorter y axis
  to 2 with width 4; a rectangle from -2147483648 to 2147483646 has the even unsigned span
  4294967294, which is printed as the 32-bit int -2; 3 by 5 is fatal. A pass over a block
  whose special net VDD has the wire 10 by 3, 3 by 5, 10 by 4 writes the first rectangle and
  the separator, then ends in the fatal error: the third rectangle, the end of the section
  and \<^verbatim>\<open>END DESIGN\<close> are not written.
\<close>

theorem undefined_direction_parity_witness:
  "sb_direction (ex_sbox 0 0 10 3) = UNDEFINED
   \<and> special_path_centerline (ex_sbox 0 0 10 3)
       = Inr \<lparr>cl_w = 10, cl_x1 = 5, cl_y1 = 0, cl_x2 = 5, cl_y2 = 3\<rparr>
   \<and> special_path_centerline (ex_sbox 0 0 10 4)
       = Inr \<lparr>cl_w = 4, cl_x1 = 0, cl_y1 = 2, cl_x2 = 10, cl_y2 = 2\<rparr>
   \<and> special_path_centerline (ex_sbox 0 0 3 5) = Inl (ZException odd_both_message)
   \<and> writeSpecialPath (ex_writer DEF_5_8) (ex_sbox 0 0 10 3) = Inr ['' M1 10 ( 5 0 ) ( 5 3 )'']
   \<and> writeSpecialPath (ex_writer DEF_5_8) (ex_sbox 0 0 10 4) = Inr ['' M1 4 ( 0 2 ) ( 10 2 )'']
   \<and> writeSpecialPath (ex_writer DEF_5_8) (ex_sbox (- 2147483648) 0 2147483646 3)
       = Inr ['' M1 -2 ( -1 0 ) ( -1 3 )'']
   \<and> writeSpecialPath (ex_writer DEF_5_8) (ex_sbox 0 0 3 5) = Inl (ZException odd_both_message)
   \<and> SBOX_RECT (ex_sbox 0 0 3 5)
       \<in> set (special_boxes (build_selection [] [] no_selection)
                 (blk_nets (ex_block [ex_snet ''VDD''
                    [SBOX_RECT (ex_sbox 0 0 10 3), SBOX_RECT (ex_sbox 0 0 3 5),
                     SBOX_RECT (ex_sbox 0 0 10 4)]])))
   \<and> writeBlock (ex_writer DEF_5_8) empty_prop_defs no_selection [] [] ex_others
        (ex_block [ex_snet ''VDD''
           [SBOX_RECT (ex_sbox 0 0 10 3), SBOX_RECT (ex_sbox 0 0 3 5),
            SBOX_RECT (ex_sbox 0 0 10 4)]])
        ''out.def'' True
      = \<lparr>pr_outcome = Threw (ZException odd_both_message),
         pr_warnings = [],
         pr_written = Some
           (write_header (ex_writer DEF_5_8) (ex_block [])
            @ [''COMPONENTS 0 ;\<newline>'', ''END COMPONENTS\<newline>'',
               ''SPECIALNETS 1 ;\<newline>'', ''    - VDD'', '' + USE POWER'',
               ''\<newline>      + ROUTED'', '' M1 10 ( 5 0 ) ( 5 3 )'', ''\<newline>      NEW''])\<rparr>"
proof -
  let ?W = "ex_writer DEF_5_8"
  let ?A = "ex_sbox 0 0 10 3"
  let ?B = "ex_sbox 0 0 10 4"
  let ?C = "ex_sbox (- 2147483648) 0 2147483646 3"
  let ?D = "ex_sbox 0 0 3 5"
  let ?blk = "ex_block [ex_snet ''VDD'' [SBOX_RECT ?A, SBOX_RECT ?D, SBOX_RECT ?B]]"
  have uA: "sb_direction ?A = UNDEFINED" and uB: "sb_direction ?B = UNDEFINED"
    and uC: "sb_direction ?C = UNDEFINED" and uD: "sb_direction ?D = UNDEFINED"
    by (simp_all add: ex_sbox_def)
  have pA: "even (unat (sbox_dx ?A)) \<and> odd (unat (sbox_dy ?A))"
    by (simp add: ex_sbox_def sbox_dx_def sbox_dy_def)
  have pB: "even (unat (sbox_dx ?B)) \<and> even (unat (sbox_dy ?B)) \<and> sbox_dy ?B < sbox_dx ?B"
    by (simp add: ex_sbox_def sbox_dx_def sbox_dy_def)
  have pC: "even (unat (sbox_dx ?C)) \<and> odd (unat (sbox_dy ?C))"
    by (simp add: ex_sbox_def sbox_dx_def sbox_dy_def)
  have pD: "odd (unat (sbox_dx ?D)) \<and> odd (unat (sbox_dy ?D))"
    by (simp add: ex_sbox_def sbox_dx_def sbox_dy_def)
  have member: "SBOX_RECT ?D \<in> set (special_boxes (build_selection [] [] no_selection)
                                      (blk_nets ?blk))"
    by (simp add: special_boxes_def build_selection_def nets_visited_def net_selected_def
          no_selection_def ex_block_def ex_snet_def ex_swire_def)
  note tA = undefined_direction_parity [where box = ?A and w = ?W, OF uA]
  note tB = undefined_direction_parity [where box = ?B and w = ?W, OF uB]
  note tC = undefined_direction_parity [where box = ?C and w = ?W, OF uC]
  note tD = undefined_direction_parity
              [where box = ?D and w = ?W and pd = empty_prop_defs and sel_in = no_selection
                 and snl = "[]" and sil = "[]" and others = ex_others and block = ?blk
                 and def_file = "''out.def''", OF uD]
  from pA tA [THEN conjunct2, THEN conjunct2, THEN conjunct2, THEN conjunct1]
  have cA: "special_path_centerline ?A = Inr (x_collapsed ?A)" by (rule rev_mp)
  from pA tA [THEN conjunct2, THEN conjunct2, THEN conjunct2, THEN conjunct2, THEN conjunct2,
              THEN conjunct2, THEN conjunct2, THEN conjunct2, THEN conjunct2, THEN conjunct2,
              THEN conjunct2, THEN conjunct2, THEN conjunct2, THEN conjunct1]
  have wA: "writeSpecialPath ?W ?A = Inr [special_path_text ?W ?A (x_collapsed ?A)]"
    by (rule rev_mp)
  from pB tB [THEN conjunct2, THEN conjunct2, THEN conjunct2, THEN conjunct2, THEN conjunct2,
              THEN conjunct1]
  have cB: "special_path_centerline ?B = Inr (y_collapsed ?B)" by (rule rev_mp)
  from pB tB [THEN conjunct2, THEN conjunct2, THEN conjunct2, THEN conjunct2, THEN conjunct2,
              THEN conjunct2, THEN conjunct2, THEN conjunct2, THEN conjunct2, THEN conjunct2,
              THEN conjunct2, THEN conjunct2, THEN conjunct2, THEN conjunct2, THEN conjunct2,
              THEN conjunct1]
  have wB: "writeSpecialPath ?W ?B = Inr [special_path_text ?W ?B (y_collapsed ?B)]"
    by (rule rev_mp)
  from pC tC [THEN conjunct2, THEN conjunct2, THEN conjunct2, THEN conjunct2, THEN conjunct2,
              THEN conjunct2, THEN conjunct2, THEN conjunct2, THEN conjunct2, THEN conjunct2,
              THEN conjunct2, THEN conjunct2, THEN conjunct2, THEN conjunct1]
  have wC: "writeSpecialPath ?W ?C = Inr [special_path_text ?W ?C (x_collapsed ?C)]"
    by (rule rev_mp)
  from pD tD [THEN conjunct1]
  have cD: "special_path_centerline ?D = Inl (ZException odd_both_message)" by simp
  from pD tD [THEN conjunct2, THEN conjunct2, THEN conjunct1]
  have wD: "writeSpecialPath ?W ?D = Inl (ZException odd_both_message)" by simp
  have xA: "x_collapsed ?A = \<lparr>cl_w = 10, cl_x1 = 5, cl_y1 = 0, cl_x2 = 5, cl_y2 = 3\<rparr>"
    by (simp add: x_collapsed_def sbox_dx_def ex_sbox_def)
  have yB: "y_collapsed ?B = \<lparr>cl_w = 4, cl_x1 = 0, cl_y1 = 2, cl_x2 = 10, cl_y2 = 2\<rparr>"
    by (simp add: y_collapsed_def sbox_dy_def ex_sbox_def)
  have sA: "special_path_text ?W ?A (x_collapsed ?A) = '' M1 10 ( 5 0 ) ( 5 3 )''"
    unfolding xA by (simp add: special_eval_defs ex_defs show_defs)
  have sB: "special_path_text ?W ?B (y_collapsed ?B) = '' M1 4 ( 0 2 ) ( 10 2 )''"
    unfolding yB by (simp add: special_eval_defs ex_defs show_defs)
  have sC: "special_path_text ?W ?C (x_collapsed ?C) = '' M1 -2 ( -1 0 ) ( -1 3 )''"
    by (simp add: x_collapsed_def sbox_dx_def special_eval_defs ex_defs show_defs)
  have run: "writeBlock ?W empty_prop_defs no_selection [] [] ex_others ?blk ''out.def'' True
      = \<lparr>pr_outcome = Threw (ZException odd_both_message),
         pr_warnings = [],
         pr_written = Some
           (write_header ?W (ex_block [])
            @ [''COMPONENTS 0 ;\<newline>'', ''END COMPONENTS\<newline>'',
               ''SPECIALNETS 1 ;\<newline>'', ''    - VDD'', '' + USE POWER'',
               ''\<newline>      + ROUTED'', '' M1 10 ( 5 0 ) ( 5 3 )'', ''\<newline>      NEW''])\<rparr>"
    by (simp add: writeBlock_def sections_before_nets_def build_selection_def
          writePropertyDefinitions_def writeBTerms_def writeNets_def nets_visited_def
          net_selected_def no_selection_def writeSNet_def writeSWire_def write_sbox_def
          run_then_def run_ok_def run_throw_def writeInsts_def insts_declared_def
          insts_written_def write_header_def special_eval_defs ex_defs
          show_defs odd_both_message_def ver_defs property_clause_def empty_prop_defs_def)
  have gA: "special_path_centerline ?A
              = Inr \<lparr>cl_w = 10, cl_x1 = 5, cl_y1 = 0, cl_x2 = 5, cl_y2 = 3\<rparr>"
    unfolding cA xA by (rule refl)
  have gB: "special_path_centerline ?B
              = Inr \<lparr>cl_w = 4, cl_x1 = 0, cl_y1 = 2, cl_x2 = 10, cl_y2 = 2\<rparr>"
    unfolding cB yB by (rule refl)
  have fA: "writeSpecialPath ?W ?A = Inr ['' M1 10 ( 5 0 ) ( 5 3 )'']"
    unfolding wA sA by (rule refl)
  have fB: "writeSpecialPath ?W ?B = Inr ['' M1 4 ( 0 2 ) ( 10 2 )'']"
    unfolding wB sB by (rule refl)
  have fC: "writeSpecialPath ?W ?C = Inr ['' M1 -2 ( -1 0 ) ( -1 3 )'']"
    unfolding wC sC by (rule refl)
  show ?thesis
    by (intro conjI uA gA gB cD fA fB fC wD member run)
qed

section \<open>Ordinary points of a wire path\<close>

text \<open>
  Claim C8 says that the first ordinary point of a path is written in full, that every later
  point whose x equals the previous point's x is written as \<^verbatim>\<open>( * y )\<close>, and that every
  later point whose y equals the previous point's y is written as \<^verbatim>\<open>( x * )\<close>. It fails on
  a point that repeats the previous one: its y equals the previous y, yet the test on x comes
  first, and the point is written as \<^verbatim>\<open>( * 0 )\<close>, not as \<^verbatim>\<open>( 0 * )\<close>.
\<close>

theorem repeated_point_counterexample:
  "writeWire (ex_writer DEF_5_8) None WT_ROUTED
      [ex_event (PATH ex_layer WT_ROUTED), ex_event (POINT 0 0), ex_event (POINT 0 0)]
     = [''\<newline>      + ROUTED M1'', '' ( 0 0 )'', '' ( * 0 )'']
   \<and> '' ( 0 * )'' \<notin> set (writeWire (ex_writer DEF_5_8) None WT_ROUTED
      [ex_event (PATH ex_layer WT_ROUTED), ex_event (POINT 0 0), ex_event (POINT 0 0)])"
  by (simp add: ex_defs wire_eval_defs show_defs)

text \<open>
  Claim C8 as amended: the ordinary point that follows the start of its path is written in
  full, \<^verbatim>\<open>( x y )\<close>; a later point whose x equals the previous point's x is written as
  \<^verbatim>\<open>( * y )\<close>; a later point whose x differs from and whose y equals the previous point's is
  written as \<^verbatim>\<open>( x * )\<close> (each after the line break due at every eighth token, and after the
  mask statement of a coloured even-indexed point); every point becomes the previous point.
  The points (0,0), (0,500), (300,500) on one path are written as \<^verbatim>\<open>( 0 0 )\<close>,
  \<^verbatim>\<open>( * 500 )\<close>, \<^verbatim>\<open>( 300 * )\<close>.
\<close>

theorem point_wildcards:
  assumes "opcode d = POINT rx ry"
  shows "(is_path_start (opcode p) \<longrightarrow>
            fst (wire_step w ndr nwt rest d (snd (wire_step w ndr nwt (d # rest) p st0)))
              = [full_point (defdist w rx) (defdist w ry)])
       \<and> (point_cnt st \<noteq> 0 \<and> defdist w rx = prev_x st \<longrightarrow>
            fst (wire_step w ndr nwt rest d st)
              = line_break (point_cnt st + 1)
                @ [point_mask_statement (point_cnt st + 1) (color d) @ star_x_point (defdist w ry)])
       \<and> (point_cnt st \<noteq> 0 \<and> defdist w rx \<noteq> prev_x st \<and> defdist w ry = prev_y st \<longrightarrow>
            fst (wire_step w ndr nwt rest d st)
              = line_break (point_cnt st + 1)
                @ [point_mask_statement (point_cnt st + 1) (color d) @ star_y_point (defdist w rx)])
       \<and> (color d = None \<longrightarrow> point_mask_statement (point_cnt st + 1) (color d) = [])
       \<and> snd (wire_step w ndr nwt rest d st)
            = st\<lparr>point_cnt := point_cnt st + 1, prev_x := defdist w rx, prev_y := defdist w ry\<rparr>
       \<and> writeWire (ex_writer DEF_5_8) None WT_ROUTED
            [ex_event (PATH ex_layer WT_ROUTED), ex_event (POINT 0 0), ex_event (POINT 0 500),
             ex_event (POINT 300 500)]
          = [''\<newline>      + ROUTED M1'', '' ( 0 0 )'', '' ( * 500 )'', '' ( 300 * )'']"
proof (intro conjI impI)
  assume "is_path_start (opcode p)"
  then have "point_cnt (snd (wire_step w ndr nwt (d # rest) p st0)) = 0"
    by (rule path_start_resets)
  then show "fst (wire_step w ndr nwt rest d (snd (wire_step w ndr nwt (d # rest) p st0)))
              = [full_point (defdist w rx) (defdist w ry)]"
    using assms
    by (simp add: wire_step_def[of w ndr nwt rest d] Let_def line_break_def point_token_def
          full_point_def)
next
  assume "point_cnt st \<noteq> 0 \<and> defdist w rx = prev_x st"
  then show "fst (wire_step w ndr nwt rest d st)
              = line_break (point_cnt st + 1)
                @ [point_mask_statement (point_cnt st + 1) (color d) @ star_x_point (defdist w ry)]"
    using assms by (simp add: wire_step_def Let_def point_token_def star_x_point_def)
next
  assume "point_cnt st \<noteq> 0 \<and> defdist w rx \<noteq> prev_x st \<and> defdist w ry = prev_y st"
  then show "fst (wire_step w ndr nwt rest d st)
              = line_break (point_cnt st + 1)
                @ [point_mask_statement (point_cnt st + 1) (color d) @ star_y_point (defdist w rx)]"
    using assms by (simp add: wire_step_def Let_def point_token_def star_y_point_def)
next
  assume "color d = None"
  then show "point_mask_statement (point_cnt st + 1) (color d) = []"
    by (simp add: point_mask_statement_def)
next
  show "snd (wire_step w ndr nwt rest d st)
            = st\<lparr>point_cnt := point_cnt st + 1, prev_x := defdist w rx, prev_y := defdist w ry\<rparr>"
    using assms by (simp add: wire_step_def Let_def)
next
  show "writeWire (ex_writer DEF_5_8) None WT_ROUTED
            [ex_event (PATH ex_layer WT_ROUTED), ex_event (POINT 0 0), ex_event (POINT 0 500),
             ex_event (POINT 300 500)]
          = [''\<newline>      + ROUTED M1'', '' ( 0 0 )'', '' ( * 500 )'', '' ( 300 * )'']"
    by (simp add: ex_defs wire_eval_defs show_defs)
qed

text \<open>
  The amended claim C8 on single steps: after a path start the point (0,0) is written in
  full; from the state that has (0,0) as previous point, (0,500) is written with the x
  wildcard and (300,0) with the y wildcard.
\<close>

theorem point_wildcards_witness:
  "opcode (ex_event (POINT 0 500)) = POINT 0 500
   \<and> is_path_start (opcode (ex_event (PATH ex_layer WT_ROUTED)))
   \<and> fst (wire_step (ex_writer DEF_5_8) None WT_ROUTED [] (ex_event (POINT 0 0))
            (snd (wire_step (ex_writer DEF_5_8) None WT_ROUTED [ex_event (POINT 0 0)]
                    (ex_event (PATH ex_layer WT_ROUTED)) wire_state_init)))
       = ['' ( 0 0 )'']
   \<and> point_cnt ex_state \<noteq> 0
   \<and> fst (wire_step (ex_writer DEF_5_8) None WT_ROUTED [] (ex_event (POINT 0 500)) ex_state)
       = ['' ( * 500 )'']
   \<and> fst (wire_step (ex_writer DEF_5_8) None WT_ROUTED [] (ex_event (POINT 300 0)) ex_state)
       = ['' ( 300 * )'']"
  using point_wildcards [of "ex_event (POINT 0 0)" 0 0 "ex_event (PATH ex_layer WT_ROUTED)"
                            "ex_writer DEF_5_8" None WT_ROUTED "[]" wire_state_init ex_state]
        point_wildcards [of "ex_event (POINT 0 500)" 0 500 "ex_event (PATH ex_layer WT_ROUTED)"
                            "ex_writer DEF_5_8" None WT_ROUTED "[]" wire_state_init ex_state]
        point_wildcards [of "ex_event (POINT 300 0)" 300 0 "ex_event (PATH ex_layer WT_ROUTED)"
                            "ex_writer DEF_5_8" None WT_ROUTED "[]" wire_state_init ex_state]
  by (simp add: ex_defs line_break_def point_mask_statement_def full_point_def
        star_x_point_def star_y_point_def show_defs)

section \<open>Rule switches of a wire path\<close>

text \<open>
  Claim C9: a rule-switch event writes a TAPERRULE token only when the rule it names is
  different from the non-default rule active for the net (none being active counts as
  different); a switch to the rule that is already active writes nothing. The event writes
  the token exactly when, in addition, no point of the current path has been counted yet,
  and it leaves the decoder state unchanged.
\<close>

theorem taperrule_only_on_change:
  assumes "opcode d = RULE taper_rule"
  shows "fst (wire_step w ndr nwt rest d st)
           = (if point_cnt st = 0
                 \<and> (case ndr of None \<Rightarrow> True | Some active \<Rightarrow> ndr_id active \<noteq> ndr_id taper_rule)
              then ['' TAPERRULE '' @ ndr_name taper_rule @ '' '']
              else [])
       \<and> (fst (wire_step w ndr nwt rest d st) \<noteq> [] \<longrightarrow>
            (case ndr of None \<Rightarrow> True | Some active \<Rightarrow> ndr_id active \<noteq> ndr_id taper_rule))
       \<and> (ndr = Some taper_rule \<longrightarrow> fst (wire_step w ndr nwt rest d st) = [])
       \<and> snd (wire_step w ndr nwt rest d st) = st"
  using assms by (auto simp add: wire_step_def rule_token_def split: option.splits)

text \<open>
  Claim C9 at the start of a path of a net whose active rule is R1: a switch to R2 writes
  \<^verbatim>\<open>TAPERRULE R2\<close>, a switch to R1 writes nothing.
\<close>

theorem taperrule_only_on_change_witness:
  "opcode (ex_event (RULE (ex_rule 2 ''R2''))) = RULE (ex_rule 2 ''R2'')
   \<and> fst (wire_step (ex_writer DEF_5_8) (Some (ex_rule 1 ''R1'')) WT_ROUTED []
            (ex_event (RULE (ex_rule 2 ''R2''))) wire_state_init)
       = ['' TAPERRULE R2 '']
   \<and> fst (wire_step (ex_writer DEF_5_8) (Some (ex_rule 1 ''R1'')) WT_ROUTED []
            (ex_event (RULE (ex_rule 1 ''R1''))) wire_state_init)
       = []"
  using taperrule_only_on_change
          [of "ex_event (RULE (ex_rule 2 ''R2''))" "ex_rule 2 ''R2''" "ex_writer DEF_5_8"
              "Some (ex_rule 1 ''R1'')" WT_ROUTED "[]" wire_state_init]
        taperrule_only_on_change
          [of "ex_event (RULE (ex_rule 1 ''R1''))" "ex_rule 1 ''R1''" "ex_writer DEF_5_8"
              "Some (ex_rule 1 ''R1'')" WT_ROUTED "[]" wire_state_init]
  by (simp add: ex_defs wire_state_init_def)

section \<open>Diagonal steps of a wire path\<close>

text \<open>
  Claim C10: an ordinary point that is not the first token of its path and whose two
  coordinates both differ from the previous point's writes no coordinate token (only the
  line break due at every eighth token); the point counter still advances and the point
  becomes the previous point.
\<close>

theorem diagonal_point_dropped:
  assumes "opcode d = POINT rx ry"
    and "point_cnt st \<noteq> 0"
    and "defdist w rx \<noteq> prev_x st"
    and "defdist w ry \<noteq> prev_y st"
  shows "wire_step w ndr nwt rest d st
           = (line_break (point_cnt st + 1),
              st\<lparr>point_cnt := point_cnt st + 1, prev_x := defdist w rx, prev_y := defdist w ry\<rparr>)
         \<and> point_token (point_cnt st + 1) (point_mask_statement (point_cnt st + 1) (color d))
             (defdist w rx) (defdist w ry) (prev_x st) (prev_y st) = []"
  using assms by (simp add: wire_step_def Let_def point_token_def)

text \<open>
  Claim C10 on the step from (0,0) to (5,7): nothing is written, the counter goes from 1
  to 2 and (5,7) is the previous point.
\<close>

theorem diagonal_point_dropped_witness:
  "opcode (ex_event (POINT 5 7)) = POINT 5 7
   \<and> point_cnt ex_state \<noteq> 0
   \<and> defdist (ex_writer DEF_5_8) 5 \<noteq> prev_x ex_state
   \<and> defdist (ex_writer DEF_5_8) 7 \<noteq> prev_y ex_state
   \<and> wire_step (ex_writer DEF_5_8) None WT_ROUTED [] (ex_event (POINT 5 7)) ex_state
       = ([], \<lparr>prev_wire_type = WT_ROUTED, point_cnt = 2, path_cnt = 1, prev_x = 5, prev_y = 7\<rparr>)"
  using diagonal_point_dropped
          [of "ex_event (POINT 5 7)" 5 7 ex_state "ex_writer DEF_5_8" None WT_ROUTED "[]"]
  by (simp add: ex_defs line_break_def)

end
